theory Spec2Isabelle
  imports Main "HOL-Library.Sublist"
begin

section \<open>JavaScript values used by the backend\<close>

text \<open>
  Strings are lists of 8-bit characters. That is exact for header values (the Fetch API
  hands them out as byte strings) and an abstraction for query parameters and JSON
  strings, whose code units above 255 play no part in any check modelled here.
  \<open>String.prototype.trim\<close> removes the white space and line terminators of ECMAScript;
  the ones that exist below 256 are TAB, LF, VT, FF, CR, SPACE and NBSP.
\<close>

definition is_js_space :: "char \<Rightarrow> bool" where
  "is_js_space c =
     (c \<in> set [CHR 0x09, CHR 0x0A, CHR 0x0B, CHR 0x0C, CHR 0x0D, CHR 0x20, CHR 0xA0])"

definition trimStart :: "string \<Rightarrow> string" where
  "trimStart s = dropWhile is_js_space s"

definition trim :: "string \<Rightarrow> string" where
  "trim s = rev (dropWhile is_js_space (rev (dropWhile is_js_space s)))"

definition startsWith :: "string \<Rightarrow> string \<Rightarrow> bool" where
  "startsWith s p = prefix p s"

text \<open>\<open>s.includes(p)\<close>: \<open>p\<close> occurs in \<open>s\<close> as a contiguous substring.\<close>

fun js_includes :: "string \<Rightarrow> string \<Rightarrow> bool" where
  "js_includes [] p = (p = [])"
| "js_includes (c # s) p = (prefix p (c # s) \<or> js_includes s p)"

text \<open>\<open>s.split(c)[0]\<close>: everything before the first separator character.\<close>

definition split_first :: "char \<Rightarrow> string \<Rightarrow> string" where
  "split_first c s = takeWhile (\<lambda>x. x \<noteq> c) s"

text \<open>\<open>String(n)\<close> for an integer \<open>n\<close>: its decimal numeral.\<close>

definition digit_char :: "nat \<Rightarrow> char" where
  "digit_char d = ''0123456789'' ! d"

fun string_of_nat :: "nat \<Rightarrow> string" where
  "string_of_nat n =
     (if n < 10 then [digit_char n] else string_of_nat (n div 10) @ [digit_char (n mod 10)])"

declare string_of_nat.simps [simp del]

definition string_of_int :: "int \<Rightarrow> string" where
  "string_of_int i = (if i < 0 then CHR ''-'' # string_of_nat (nat (- i)) else string_of_nat (nat i))"

text \<open>
  A JavaScript number whose value is an integer, an infinity or \<open>NaN\<close>: the results of
  \<open>parseInt\<close> and of the subtractions and multiplications made on them. Numbers are IEEE
  doubles: an integer of magnitude up to \<open>2^53\<close> is held exactly, a larger one is rounded
  to 53 significant bits (to nearest, ties to even), and one that rounds to \<open>2^1024\<close> or
  more is an infinity. The sign of zero is not kept (no code below tells \<open>-0\<close> from \<open>0\<close>).
\<close>

datatype jsnum = NaN | Num int | PosInf | NegInf

fun bit_length :: "nat \<Rightarrow> nat" where
  "bit_length n = (if n = 0 then 0 else Suc (bit_length (n div 2)))"

declare bit_length.simps [simp del]

text \<open>The multiple of \<open>2^e\<close> nearest to \<open>n\<close>, the even one of two equally near.\<close>

definition round_half_even :: "nat \<Rightarrow> nat \<Rightarrow> nat" where
  "round_half_even e n =
     (let q = n div 2 ^ e; r = n mod 2 ^ e
      in if 2 * r > 2 ^ e \<or> (2 * r = 2 ^ e \<and> odd q) then (q + 1) * 2 ^ e else q * 2 ^ e)"

definition MAX_EXACT :: int where
  "MAX_EXACT = 9007199254740992"

definition to_double :: "int \<Rightarrow> jsnum" where
  "to_double i =
     (if \<bar>i\<bar> \<le> MAX_EXACT then Num i
      else (let n = nat \<bar>i\<bar>;
                m = round_half_even (bit_length n - 53) n
            in if m \<ge> 2 ^ 1024 then (if i < 0 then NegInf else PosInf)
               else Num (if i < 0 then - int m else int m)))"

text \<open>Every comparison with \<open>NaN\<close> is false and arithmetic propagates it.\<close>

fun js_lt :: "jsnum \<Rightarrow> jsnum \<Rightarrow> bool" where
  "js_lt (Num a) (Num b) = (a < b)"
| "js_lt NaN _ = False"
| "js_lt _ NaN = False"
| "js_lt PosInf _ = False"
| "js_lt _ NegInf = False"
| "js_lt NegInf _ = True"
| "js_lt (Num a) PosInf = True"

fun js_gt :: "jsnum \<Rightarrow> jsnum \<Rightarrow> bool" where
  "js_gt x y = js_lt y x"

fun js_le :: "jsnum \<Rightarrow> jsnum \<Rightarrow> bool" where
  "js_le (Num a) (Num b) = (a \<le> b)"
| "js_le NaN _ = False"
| "js_le _ NaN = False"
| "js_le NegInf _ = True"
| "js_le _ PosInf = True"
| "js_le PosInf _ = False"
| "js_le (Num a) NegInf = False"

fun js_sub :: "jsnum \<Rightarrow> jsnum \<Rightarrow> jsnum" where
  "js_sub (Num a) (Num b) = to_double (a - b)"
| "js_sub NaN _ = NaN"
| "js_sub _ NaN = NaN"
| "js_sub PosInf PosInf = NaN"
| "js_sub NegInf NegInf = NaN"
| "js_sub PosInf _ = PosInf"
| "js_sub NegInf _ = NegInf"
| "js_sub (Num a) PosInf = NegInf"
| "js_sub (Num a) NegInf = PosInf"

fun js_sign :: "jsnum \<Rightarrow> int" where
  "js_sign NaN = 0"
| "js_sign (Num a) = sgn a"
| "js_sign PosInf = 1"
| "js_sign NegInf = - 1"

fun js_mul :: "jsnum \<Rightarrow> jsnum \<Rightarrow> jsnum" where
  "js_mul (Num a) (Num b) = to_double (a * b)"
| "js_mul NaN _ = NaN"
| "js_mul _ NaN = NaN"
| "js_mul x y =
     (let s = js_sign x * js_sign y
      in if s = 0 then NaN else if s > 0 then PosInf else NegInf)"

text \<open>Truthiness of a number: \<open>0\<close> and \<open>NaN\<close> are falsy.\<close>

fun js_truthy :: "jsnum \<Rightarrow> bool" where
  "js_truthy NaN = False"
| "js_truthy (Num a) = (a \<noteq> 0)"
| "js_truthy _ = True"

text \<open>
  \<open>parseInt(s)\<close> without a radix: leading white space is skipped, one sign is read, a
  \<open>0x\<close>/\<open>0X\<close> prefix selects base 16, and the longest run of digits of the base is
  converted to the nearest double; no digit at all gives \<open>NaN\<close>.
\<close>

definition digit_value :: "char \<Rightarrow> nat option" where
  "digit_value c =
     (let n = (of_char c :: nat) in
      if 48 \<le> n \<and> n \<le> 57 then Some (n - 48)
      else if 97 \<le> n \<and> n \<le> 102 then Some (n - 87)
      else if 65 \<le> n \<and> n \<le> 70 then Some (n - 55)
      else None)"

definition is_digit_of :: "nat \<Rightarrow> char \<Rightarrow> bool" where
  "is_digit_of base c = (case digit_value c of None \<Rightarrow> False | Some d \<Rightarrow> d < base)"

definition digits_value :: "nat \<Rightarrow> string \<Rightarrow> nat" where
  "digits_value base ds = foldl (\<lambda>acc c. acc * base + (case digit_value c of None \<Rightarrow> 0 | Some d \<Rightarrow> d)) 0 ds"

definition parse_digits :: "nat \<Rightarrow> string \<Rightarrow> nat option" where
  "parse_digits base s =
     (let ds = takeWhile (is_digit_of base) s
      in if ds = [] then None else Some (digits_value base ds))"

text \<open>\<open>parseInt(s, 10)\<close>: the same without the hexadecimal prefix.\<close>

definition parseInt10 :: "string \<Rightarrow> jsnum" where
  "parseInt10 s =
     (let s1 = trimStart s;
          neg = (s1 \<noteq> [] \<and> hd s1 = CHR ''-'');
          s2 = (if s1 \<noteq> [] \<and> (hd s1 = CHR ''-'' \<or> hd s1 = CHR ''+'') then tl s1 else s1)
      in case parse_digits 10 s2 of
           None \<Rightarrow> NaN
         | Some n \<Rightarrow> to_double (if neg then - int n else int n))"

definition parseInt :: "string \<Rightarrow> jsnum" where
  "parseInt s =
     (let s1 = trimStart s;
          neg = (s1 \<noteq> [] \<and> hd s1 = CHR ''-'');
          s2 = (if s1 \<noteq> [] \<and> (hd s1 = CHR ''-'' \<or> hd s1 = CHR ''+'') then tl s1 else s1);
          hex = (prefix ''0x'' s2 \<or> prefix ''0X'' s2);
          r = (if hex then parse_digits 16 (drop 2 s2) else parse_digits 10 s2)
      in case r of
           None \<Rightarrow> NaN
         | Some n \<Rightarrow> to_double (if neg then - int n else int n))"

text \<open>
  A parsed JSON value. Object members are kept in an association list that is read from
  the left (the list holds the object's own properties, one entry per key). Numbers in
  request bodies are never inspected by the handlers modelled below.
\<close>

datatype json =
    JNull
  | JBool bool
  | JNum int
  | JStr string
  | JArr "json list"
  | JObj "(string \<times> json) list"

text \<open>
  \<open>v.k\<close>: reading a property. On \<open>null\<close> it throws a \<open>TypeError\<close> (\<open>None\<close>); on any
  other value without that property it is \<open>undefined\<close> (\<open>Some None\<close>).
\<close>

fun js_prop :: "json \<Rightarrow> string \<Rightarrow> json option option" where
  "js_prop JNull k = None"
| "js_prop (JObj kvs) k = Some (map_of kvs k)"
| "js_prop _ k = Some None"

section \<open>Data model (models/types.ts, schema.sql)\<close>

datatype article_status = Draft | Published

fun status_text :: "article_status \<Rightarrow> string" where
  "status_text Draft = ''draft''"
| "status_text Published = ''published''"

record admin =
  adm_id :: int
  adm_username :: string
  adm_password_hash :: string

record category =
  cat_id :: int
  cat_name :: string
  cat_slug :: string
  cat_description :: "string option"
  cat_created_at :: int

record tag =
  tg_id :: int
  tg_name :: string
  tg_slug :: string
  tg_created_at :: int

text \<open>
  The twelve columns that every article query of the handlers selects; the table row
  adds \<open>is_pinned\<close>. Timestamps are integers (the order of the \<open>DATETIME\<close> texts);
  a nullable column is an \<open>option\<close>; the column \<open>keywords\<close> is the field
  \<open>keywords_col\<close>.
\<close>

record article_cols =
  art_id :: int
  title :: string
  content :: string
  cover :: "string option"
  category_id :: "int option"
  description :: "string option"
  keywords_col :: "string option"
  status :: article_status
  view_count :: int
  like_count :: int
  created_at :: int
  updated_at :: int

record article = article_cols +
  is_pinned :: int

record article_tag =
  article_id :: int
  tag_id :: int

text \<open>The D1 database: one list of rows per table.\<close>

record database =
  admins :: "admin list"
  categories :: "category list"
  tags :: "tag list"
  articles :: "article list"
  article_tags :: "article_tag list"

text \<open>
  The schema's keys: \<open>id\<close> is the primary key of \<open>articles\<close>, \<open>categories\<close> and
  \<open>tags\<close>, and \<open>(article_id, tag_id)\<close> is the primary key of \<open>article_tags\<close>.
\<close>

definition primary_keys :: "database \<Rightarrow> bool" where
  "primary_keys db =
     (distinct (map art_id (articles db)) \<and> distinct (map cat_id (categories db)) \<and>
      distinct (map tg_id (database.tags db)) \<and> distinct (article_tags db))"

section \<open>Responses (utils/response.ts)\<close>

text \<open>
  The data of a success envelope, one constructor per shape that a modelled handler
  returns. A page of a list carries \<open>data\<close>, \<open>total\<close>, \<open>page\<close> and \<open>pageSize\<close>.
\<close>

record 'a paginated =
  data :: "'a list"
  total :: int
  page :: jsnum
  pageSize :: jsnum

record article_view = article_cols +
  category :: "category option"
  tags :: "tag list"

text \<open>A related article: \<open>id, title, cover, description, view_count, created_at\<close>.\<close>

type_synonym related_row = "int \<times> string \<times> string option \<times> string option \<times> int \<times> int"

record article_detail = article_view +
  relatedArticles :: "related_row list"

datatype payload =
    PArticleList "article_view paginated"
  | PAdminArticleList "article_cols paginated"
  | PArticleDetail article_detail
  | PLike bool int
  | PDeleted bool
  | PLogin string int
  | PUpload string string
  | PHealth string string int

text \<open>
  The envelope: \<open>{success: true, data}\<close> or \<open>{success: false, error: {code, message}}\<close>.
\<close>

datatype body = Success payload | Failure string string

record response =
  resp_status :: nat
  resp_headers :: "(string \<times> string) list"
  resp_body :: body

text \<open>\<open>Headers.set\<close>: replace the value of a header that is there, or append it.\<close>

fun headers_set :: "(string \<times> string) list \<Rightarrow> string \<Rightarrow> string \<Rightarrow> (string \<times> string) list" where
  "headers_set [] k v = [(k, v)]"
| "headers_set ((k', v') # hs) k v =
     (if k' = k then (k, v) # hs else (k', v') # headers_set hs k v)"

definition success :: "payload \<Rightarrow> nat \<Rightarrow> response" where
  "success d st =
     \<lparr>resp_status = st, resp_headers = [(''Content-Type'', ''application/json'')],
      resp_body = Success d\<rparr>"

definition error :: "string \<Rightarrow> string \<Rightarrow> nat \<Rightarrow> response" where
  "error code message st =
     \<lparr>resp_status = st, resp_headers = [(''Content-Type'', ''application/json'')],
      resp_body = Failure code message\<rparr>"

definition unauthorized :: "string \<Rightarrow> response" where
  "unauthorized message = error ''UNAUTHORIZED'' message 401"

definition notFound :: "string \<Rightarrow> response" where
  "notFound message = error ''NOT_FOUND'' message 404"

definition badRequest :: "string \<Rightarrow> response" where
  "badRequest message = error ''BAD_REQUEST'' message 400"

definition conflict :: "string \<Rightarrow> response" where
  "conflict message = error ''CONFLICT'' message 409"

definition internalError :: "string \<Rightarrow> response" where
  "internalError message = error ''INTERNAL_ERROR'' message 500"

text \<open>
  \<open>tooManyRequests(message, retryAfter)\<close>: the header is set under \<open>if (retryAfter)\<close>,
  that is when the argument is given and is not \<open>0\<close>.
\<close>

definition tooManyRequests :: "string \<Rightarrow> int option \<Rightarrow> response" where
  "tooManyRequests message retryAfter =
     (let r = error ''TOO_MANY_REQUESTS'' message 429 in
      case retryAfter of
        None \<Rightarrow> r
      | Some n \<Rightarrow>
          if n \<noteq> 0
          then \<lparr>resp_status = 429,
                resp_headers = headers_set (resp_headers r) ''Retry-After'' (string_of_int n),
                resp_body = resp_body r\<rparr>
          else r)"

definition payloadTooLarge :: "string \<Rightarrow> response" where
  "payloadTooLarge message = error ''PAYLOAD_TOO_LARGE'' message 413"

section \<open>Requests and the environment\<close>

text \<open>
  What \<open>formData().get('file')\<close> yields: the call throws, the field is missing, it is a
  text field, or it is a file with a MIME type and a content.
\<close>

datatype form_result = FormThrows | FormNoFile | FormText string | FormFile string string

text \<open>
  A request, as the code observes it: method, path and query of the URL, the five headers
  that are read (\<open>None\<close> when absent), and the body through the three readers used:
  \<open>json()\<close> (\<open>None\<close> when it throws: no body or malformed JSON), \<open>formData()\<close> and
  \<open>arrayBuffer()\<close>.
\<close>

record request =
  req_method :: string
  pathname :: string
  searchParams :: "(string \<times> string) list"
  h_authorization :: "string option"
  h_content_type :: "string option"
  h_content_length :: "string option"
  h_cf_connecting_ip :: "string option"
  h_x_forwarded_for :: "string option"
  json_body :: "json option"
  form_data :: form_result
  body_bytes :: string

record env =
  JWT_SECRET :: string

section \<open>Tokens (utils/jwt.ts)\<close>

text \<open>
  The claims that \<open>jose\<close> signs and returns. After verification each claim may be absent
  or of any JSON type, which is why \<open>verifyToken\<close> checks them.
\<close>

record jose_payload =
  claim_sub :: "json option"
  claim_username :: "json option"
  claim_iat :: "json option"
  claim_exp :: "json option"

text \<open>
  The two libraries the backend calls are parameters of the model: \<open>jose\<close>
  (\<open>new SignJWT(claims).setProtectedHeader({alg: 'HS256'}).sign(key)\<close> and
  \<open>jwtVerify(token, key, {algorithms: ['HS256']})\<close>, which reads the clock and throws,
  here \<open>None\<close>, on a bad signature, a malformed or an expired token) and \<open>bcryptjs\<close>
  (\<open>compare(password, hash)\<close>). Time is \<open>Date.now()\<close>, in milliseconds.
\<close>

record externals =
  jose_sign :: "jose_payload \<Rightarrow> string \<Rightarrow> string"
  jose_jwtVerify :: "string \<Rightarrow> string \<Rightarrow> int \<Rightarrow> jose_payload option"
  bcrypt_compare :: "string \<Rightarrow> string \<Rightarrow> bool"

record jwt_payload =
  sub :: string
  username :: string
  iat :: int
  exp :: int

definition TOKEN_EXPIRATION_SECONDS :: int where
  "TOKEN_EXPIRATION_SECONDS = 24 * 60 * 60"

definition getTokenExpirationSeconds :: int where
  "getTokenExpirationSeconds = TOKEN_EXPIRATION_SECONDS"

definition signToken :: "externals \<Rightarrow> string \<Rightarrow> string \<Rightarrow> string \<Rightarrow> int \<Rightarrow> string" where
  "signToken X p_sub p_username secret now_ms =
     (let now = now_ms div 1000 in
      jose_sign X
        \<lparr>claim_sub = Some (JStr p_sub), claim_username = Some (JStr p_username),
         claim_iat = Some (JNum now),
         claim_exp = Some (JNum (now + TOKEN_EXPIRATION_SECONDS))\<rparr>
        secret)"

definition verifyToken :: "externals \<Rightarrow> string \<Rightarrow> string \<Rightarrow> int \<Rightarrow> jwt_payload option" where
  "verifyToken X token secret now_ms =
     (case jose_jwtVerify X token secret now_ms of
        None \<Rightarrow> None
      | Some p \<Rightarrow>
          (case (claim_sub p, claim_username p, claim_iat p, claim_exp p) of
             (Some (JStr s), Some (JStr u), Some (JNum i), Some (JNum e)) \<Rightarrow>
               Some \<lparr>sub = s, username = u, iat = i, exp = e\<rparr>
           | _ \<Rightarrow> None))"

section \<open>Authorization gate (middleware/auth.ts)\<close>

definition extractBearerToken :: "string option \<Rightarrow> string option" where
  "extractBearerToken authHeader =
     (case authHeader of
        None \<Rightarrow> None
      | Some h \<Rightarrow>
          if h = [] then None
          else if \<not> startsWith h ''Bearer '' then None
          else (let token = trim (drop (length ''Bearer '') h)
                in if token = [] then None else Some token))"

text \<open>The result is the 401 response (\<open>Inl\<close>) or the user (\<open>Inr\<close>).\<close>

definition authMiddleware :: "externals \<Rightarrow> env \<Rightarrow> int \<Rightarrow> request \<Rightarrow> response + jwt_payload" where
  "authMiddleware X e now_ms req =
     (case extractBearerToken (h_authorization req) of
        None \<Rightarrow> Inl (unauthorized ''Missing or invalid authorization header'')
      | Some token \<Rightarrow>
          (case verifyToken X token (JWT_SECRET e) now_ms of
             None \<Rightarrow> Inl (unauthorized ''Invalid or expired token'')
           | Some payload \<Rightarrow> Inr payload))"

definition isAuthSuccess :: "response + jwt_payload \<Rightarrow> bool" where
  "isAuthSuccess result = (case result of Inl _ \<Rightarrow> False | Inr _ \<Rightarrow> True)"

section \<open>Security middleware (middleware/security.ts)\<close>

definition MAX_REQUEST_BODY_SIZE :: int where
  "MAX_REQUEST_BODY_SIZE = 1024 * 1024"

definition MAX_UPLOAD_SIZE :: int where
  "MAX_UPLOAD_SIZE = 10 * 1024 * 1024"

record body_check =
  valid :: bool
  body_size :: jsnum

definition checkRequestBodySize :: "request \<Rightarrow> int \<Rightarrow> body_check" where
  "checkRequestBodySize req maxSize =
     (case h_content_length req of
        None \<Rightarrow> \<lparr>valid = True, body_size = Num 0\<rparr>
      | Some contentLength \<Rightarrow>
          if contentLength \<noteq> []
          then (let sz = parseInt10 contentLength
                in \<lparr>valid = js_le sz (Num maxSize), body_size = sz\<rparr>)
          else \<lparr>valid = True, body_size = Num 0\<rparr>)"

record RateLimitConfig =
  maxRequests :: int
  windowMs :: int

text \<open>An entry of the in-memory store, and the store: a map from keys to entries.\<close>

record rate_entry =
  count :: int
  resetTime :: int

type_synonym rate_store = "string \<rightharpoonup> rate_entry"

record rate_result =
  allowed :: bool
  remaining :: int
  result_resetTime :: int

text \<open>
  \<open>checkRateLimit(key, config)\<close> at time \<open>now\<close> (\<open>Date.now()\<close>): the answer and the
  store after the call.
\<close>

definition checkRateLimit ::
  "string \<Rightarrow> RateLimitConfig \<Rightarrow> int \<Rightarrow> rate_store \<Rightarrow> rate_result \<times> rate_store" where
  "checkRateLimit key config now store =
     (let store1 = (case store key of
                      None \<Rightarrow> store
                    | Some record \<Rightarrow> if now > resetTime record then store(key := None) else store)
      in case store1 key of
           None \<Rightarrow>
             (let rt = now + windowMs config
              in (\<lparr>allowed = True, remaining = maxRequests config - 1, result_resetTime = rt\<rparr>,
                  store1(key \<mapsto> \<lparr>count = 1, resetTime = rt\<rparr>)))
         | Some existing \<Rightarrow>
             if count existing \<ge> maxRequests config
             then (\<lparr>allowed = False, remaining = 0, result_resetTime = resetTime existing\<rparr>,
                   store1)
             else (\<lparr>allowed = True, remaining = maxRequests config - (count existing + 1),
                    result_resetTime = resetTime existing\<rparr>,
                   store1(key \<mapsto> existing\<lparr>count := count existing + 1\<rparr>)))"

definition getClientIP :: "request \<Rightarrow> string" where
  "getClientIP req =
     (case h_cf_connecting_ip req of
        Some ip \<Rightarrow>
          if ip \<noteq> [] then ip
          else (case h_x_forwarded_for req of
                  None \<Rightarrow> ''unknown''
                | Some x \<Rightarrow> (let t = trim (split_first (CHR '','') x)
                             in if t \<noteq> [] then t else ''unknown''))
      | None \<Rightarrow>
          (case h_x_forwarded_for req of
             None \<Rightarrow> ''unknown''
           | Some x \<Rightarrow> (let t = trim (split_first (CHR '','') x)
                        in if t \<noteq> [] then t else ''unknown'')))"

section \<open>Dispatcher (index.ts)\<close>

text \<open>
  The regular expressions of the router all have the shape
  \<open>^prefix/(\d+)suffix$\<close>: the path is the prefix, a slash, a non-empty run of decimal
  digits and the suffix. The digits are read by \<open>parseInt(_, 10)\<close>, so the handler
  is called with a double.
\<close>

definition is_decimal :: "char \<Rightarrow> bool" where
  "is_decimal c = is_digit_of 10 c"

definition match_id :: "string \<Rightarrow> string \<Rightarrow> string \<Rightarrow> jsnum option" where
  "match_id path pre suf =
     (if prefix (pre @ ''/'') path
      then (let rest = drop (length (pre @ ''/'')) path;
                ds = takeWhile is_decimal rest
            in if ds \<noteq> [] \<and> dropWhile is_decimal rest = suf
               then Some (to_double (int (digits_value 10 ds))) else None)
      else None)"

definition extractIdFromPath :: "string \<Rightarrow> string \<Rightarrow> jsnum option" where
  "extractIdFromPath path pre = match_id path pre []"

text \<open>
  Every handler is called in tail position (\<open>return handleX(request, env, id)\<close>), so the
  router's result is either a response of its own or the call it makes.
\<close>

datatype handler_call =
    HandleLogin
  | HandleGetArticles
  | HandleGetArticle jsnum
  | HandleLikeArticle jsnum
  | HandleGetCategories
  | HandleGetCategory jsnum
  | HandleGetTags
  | HandleGetTag jsnum
  | HandleUpload
  | HandleGetAdminArticles
  | HandleCreateArticle
  | HandleGetAdminArticle jsnum
  | HandleUpdateArticle jsnum
  | HandleDeleteArticle jsnum
  | HandlePinArticle jsnum
  | HandleCreateCategory
  | HandleUpdateCategory jsnum
  | HandleDeleteCategory jsnum
  | HandleCreateTag
  | HandleDeleteTag jsnum

datatype outcome = Respond response | Call handler_call

text \<open>\<open>Math.ceil(x / d)\<close> for integers \<open>x\<close> and \<open>d > 0\<close>.\<close>

definition ceil_div :: "int \<Rightarrow> int \<Rightarrow> int" where
  "ceil_div x d = - ((- x) div d)"

text \<open>The public routes after \<open>/api/login\<close>, in the order of the source.\<close>

definition public_routes :: "request \<Rightarrow> outcome option" where
  "public_routes req =
     (let p = pathname req; m = req_method req in
      if p = ''/api/articles'' \<and> m = ''GET'' then Some (Call HandleGetArticles)
      else if extractIdFromPath p ''/api/article'' \<noteq> None \<and> m = ''GET''
        then Some (Call (HandleGetArticle (the (extractIdFromPath p ''/api/article''))))
      else if match_id p ''/api/article'' ''/like'' \<noteq> None \<and> m = ''POST''
        then Some (Call (HandleLikeArticle (the (match_id p ''/api/article'' ''/like''))))
      else if p = ''/api/categories'' \<and> m = ''GET'' then Some (Call HandleGetCategories)
      else if extractIdFromPath p ''/api/category'' \<noteq> None \<and> m = ''GET''
        then Some (Call (HandleGetCategory (the (extractIdFromPath p ''/api/category''))))
      else if p = ''/api/tags'' \<and> m = ''GET'' then Some (Call HandleGetTags)
      else if extractIdFromPath p ''/api/tag'' \<noteq> None \<and> m = ''GET''
        then Some (Call (HandleGetTag (the (extractIdFromPath p ''/api/tag''))))
      else None)"

text \<open>The routes behind the gate, entered once the token is verified.\<close>

definition admin_routes :: "request \<Rightarrow> outcome option" where
  "admin_routes req =
     (let p = pathname req; m = req_method req in
      if p = ''/api/upload'' \<and> m = ''POST''
        then (if \<not> valid (checkRequestBodySize req MAX_UPLOAD_SIZE)
              then Some (Respond (payloadTooLarge ''File too large. Maximum size: 10MB''))
              else Some (Call HandleUpload))
      else if p = ''/api/admin/articles'' \<and> m = ''GET'' then Some (Call HandleGetAdminArticles)
      else if p = ''/api/admin/article'' \<and> m = ''POST'' then Some (Call HandleCreateArticle)
      else if extractIdFromPath p ''/api/admin/article'' \<noteq> None \<and> m = ''GET''
        then Some (Call (HandleGetAdminArticle (the (extractIdFromPath p ''/api/admin/article''))))
      else if extractIdFromPath p ''/api/admin/article'' \<noteq> None \<and> m = ''PUT''
        then Some (Call (HandleUpdateArticle (the (extractIdFromPath p ''/api/admin/article''))))
      else if extractIdFromPath p ''/api/admin/article'' \<noteq> None \<and> m = ''DELETE''
        then Some (Call (HandleDeleteArticle (the (extractIdFromPath p ''/api/admin/article''))))
      else if match_id p ''/api/admin/article'' ''/pin'' \<noteq> None \<and> m = ''POST''
        then Some (Call (HandlePinArticle (the (match_id p ''/api/admin/article'' ''/pin''))))
      else if p = ''/api/admin/category'' \<and> m = ''POST'' then Some (Call HandleCreateCategory)
      else if extractIdFromPath p ''/api/admin/category'' \<noteq> None \<and> m = ''PUT''
        then Some (Call (HandleUpdateCategory (the (extractIdFromPath p ''/api/admin/category''))))
      else if extractIdFromPath p ''/api/admin/category'' \<noteq> None \<and> m = ''DELETE''
        then Some (Call (HandleDeleteCategory (the (extractIdFromPath p ''/api/admin/category''))))
      else if p = ''/api/admin/tag'' \<and> m = ''POST'' then Some (Call HandleCreateTag)
      else if extractIdFromPath p ''/api/admin/tag'' \<noteq> None \<and> m = ''DELETE''
        then Some (Call (HandleDeleteTag (the (extractIdFromPath p ''/api/admin/tag''))))
      else None)"

text \<open>The health check and the 404 that end the function.\<close>

definition last_routes :: "request \<Rightarrow> int \<Rightarrow> outcome" where
  "last_routes req now =
     (if pathname req = ''/api/health'' \<and> req_method req = ''GET''
      then Respond (success (PHealth ''healthy'' ''1.0.0'' now) 200)
      else Respond (notFound ''Endpoint not found''))"

definition is_protected :: "string \<Rightarrow> bool" where
  "is_protected p = (startsWith p ''/api/admin/'' \<or> p = ''/api/upload'')"

text \<open>
  \<open>handleRequest(request, env)\<close> at time \<open>now\<close> with the rate-limit store \<open>store\<close>:
  the outcome and the store afterwards.
\<close>

definition handleRequest ::
  "externals \<Rightarrow> env \<Rightarrow> int \<Rightarrow> rate_store \<Rightarrow> request \<Rightarrow> outcome \<times> rate_store" where
  "handleRequest X e now store req =
     (if pathname req = ''/api/login'' \<and> req_method req = ''POST''
      then (let clientIP = getClientIP req;
                rateLimitKey = ''login:'' @ clientIP;
                (rateLimit, store') =
                   checkRateLimit rateLimitKey \<lparr>maxRequests = 5, windowMs = 60000\<rparr> now store
            in if \<not> allowed rateLimit
               then (let retryAfter = ceil_div (result_resetTime rateLimit - now) 1000
                     in (Respond (tooManyRequests
                           ''Too many login attempts. Please try again later.'' (Some retryAfter)),
                         store'))
               else if \<not> valid (checkRequestBodySize req MAX_REQUEST_BODY_SIZE)
               then (Respond (payloadTooLarge ''Request body too large''), store')
               else (Call HandleLogin, store'))
      else case public_routes req of
             Some out \<Rightarrow> (out, store)
           | None \<Rightarrow>
               if is_protected (pathname req)
               then (case authMiddleware X e now req of
                       Inl authResult \<Rightarrow> (Respond authResult, store)
                     | Inr user \<Rightarrow>
                         (case admin_routes req of
                            Some out \<Rightarrow> (out, store)
                          | None \<Rightarrow> (last_routes req now, store)))
               else (last_routes req now, store))"

section \<open>Sequences of calls\<close>

text \<open>
  The limit that \<open>handleRequest\<close> passes for logins, which is also the default of
  \<open>checkRateLimit\<close>: five requests per window of 60000 ms.
\<close>

definition login_limit :: RateLimitConfig where
  "login_limit = \<lparr>maxRequests = 5, windowMs = 60000\<rparr>"

text \<open>
  Calling \<open>checkRateLimit\<close> with one key at the times of a list, one call after the
  other on the same store: the answers in order, and the store at the end.
\<close>

fun checkRateLimit_calls ::
  "string \<Rightarrow> RateLimitConfig \<Rightarrow> int list \<Rightarrow> rate_store \<Rightarrow> rate_result list \<times> rate_store" where
  "checkRateLimit_calls key config [] store = ([], store)"
| "checkRateLimit_calls key config (now # ts) store =
     (let (r, store') = checkRateLimit key config now store;
          (rs, store'') = checkRateLimit_calls key config ts store'
      in (r # rs, store''))"

text \<open>The same for \<open>handleRequest\<close>: requests with their arrival times, served in order.\<close>

fun handle_requests ::
  "externals \<Rightarrow> env \<Rightarrow> rate_store \<Rightarrow> (int \<times> request) list \<Rightarrow> outcome list \<times> rate_store" where
  "handle_requests X e store [] = ([], store)"
| "handle_requests X e store ((now, req) # rest) =
     (let (out, store') = handleRequest X e now store req;
          (outs, store'') = handle_requests X e store' rest
      in (out # outs, store''))"

text \<open>
  A call at time \<open>now\<close> opens a new window for \<open>key\<close> when the store holds no entry
  for it or an entry whose \<open>resetTime\<close> has passed.
\<close>

definition window_opens :: "rate_store \<Rightarrow> string \<Rightarrow> int \<Rightarrow> bool" where
  "window_opens store key now = (case store key of None \<Rightarrow> True | Some r \<Rightarrow> now > resetTime r)"

section \<open>Predicates of the statements\<close>

text \<open>
  A request carries a valid token when its \<open>Authorization\<close> header yields a bearer
  token, \<open>jose\<close> verifies that token under the configured secret at the time of the
  request (well-formed, signed with the secret, not expired), and the verified payload
  has a string \<open>sub\<close>, a string \<open>username\<close>, a numeric \<open>iat\<close> and a numeric
  \<open>exp\<close>, as every token issued by \<open>signToken\<close> does.
\<close>

definition has_required_claims :: "jose_payload \<Rightarrow> bool" where
  "has_required_claims p =
     ((case claim_sub p of Some (JStr _) \<Rightarrow> True | _ \<Rightarrow> False) \<and>
      (case claim_username p of Some (JStr _) \<Rightarrow> True | _ \<Rightarrow> False) \<and>
      (case claim_iat p of Some (JNum _) \<Rightarrow> True | _ \<Rightarrow> False) \<and>
      (case claim_exp p of Some (JNum _) \<Rightarrow> True | _ \<Rightarrow> False))"

definition carries_valid_token :: "externals \<Rightarrow> env \<Rightarrow> int \<Rightarrow> request \<Rightarrow> bool" where
  "carries_valid_token X e now req =
     (case extractBearerToken (h_authorization req) of
        None \<Rightarrow> False
      | Some token \<Rightarrow>
          (case jose_jwtVerify X token (JWT_SECRET e) now of
             None \<Rightarrow> False
           | Some p \<Rightarrow> has_required_claims p))"

text \<open>The calls that the router makes only behind the gate.\<close>

fun is_admin_call :: "handler_call \<Rightarrow> bool" where
  "is_admin_call HandleLogin = False"
| "is_admin_call HandleGetArticles = False"
| "is_admin_call (HandleGetArticle _) = False"
| "is_admin_call (HandleLikeArticle _) = False"
| "is_admin_call HandleGetCategories = False"
| "is_admin_call (HandleGetCategory _) = False"
| "is_admin_call HandleGetTags = False"
| "is_admin_call (HandleGetTag _) = False"
| "is_admin_call _ = True"

section \<open>Categories (handlers/categories.ts)\<close>

text \<open>
  Each handler takes the database (and what it reads of the request) and returns its
  response together with the database after its statements. The statements are run one
  after the other on the lists of rows; infrastructure failures of D1 and R2 (which the
  handlers turn into a 500) are not part of the model.
\<close>

definition handleDeleteCategory :: "database \<Rightarrow> int \<Rightarrow> response \<times> database" where
  "handleDeleteCategory db i =
     (case find (\<lambda>c. cat_id c = i) (categories db) of
        None \<Rightarrow> (notFound ''Category not found'', db)
      | Some existing \<Rightarrow>
          (let articleCount = int (length (filter (\<lambda>a. category_id a = Some i) (articles db)))
           in if articleCount > 0
              then (conflict (''Cannot delete category: '' @ string_of_int articleCount
                              @ '' article(s) are using this category''), db)
              else (success (PDeleted True) 200,
                    db\<lparr>categories := filter (\<lambda>c. cat_id c \<noteq> i) (categories db)\<rparr>)))"

section \<open>Articles (handlers/articles.ts)\<close>

definition DEFAULT_PAGE_SIZE :: int where
  "DEFAULT_PAGE_SIZE = 10"

text \<open>\<open>url.searchParams.get(k) || d\<close>: the first value of the parameter, or \<open>d\<close> when
  it is absent or empty.\<close>

definition param_or :: "request \<Rightarrow> string \<Rightarrow> string \<Rightarrow> string" where
  "param_or req k d =
     (case map_of (searchParams req) k of
        None \<Rightarrow> d
      | Some v \<Rightarrow> if v = [] then d else v)"

text \<open>\<open>url.searchParams.get(k) ? parseInt(url.searchParams.get(k)!) : undefined\<close>.\<close>

definition param_int :: "request \<Rightarrow> string \<Rightarrow> jsnum option" where
  "param_int req k =
     (case map_of (searchParams req) k of
        None \<Rightarrow> None
      | Some v \<Rightarrow> if v = [] then None else Some (parseInt v))"

text \<open>\<open>if (params.x)\<close> on an optional number: the value to bind, when it is truthy.\<close>

definition truthy_param :: "jsnum option \<Rightarrow> jsnum option" where
  "truthy_param x =
     (case x of
        Some v \<Rightarrow> if js_truthy v then Some v else None
      | None \<Rightarrow> None)"

text \<open>
  \<open>column = ?\<close> on an \<open>INTEGER\<close> column and a bound number. The parameters travel to
  D1 as JSON, where an infinity is \<open>null\<close>: a \<open>NULL\<close> on either side equals nothing.
\<close>

fun sql_eq :: "int option \<Rightarrow> jsnum \<Rightarrow> bool" where
  "sql_eq (Some c) (Num n) = (c = n)"
| "sql_eq _ _ = False"

text \<open>The two lines that validate the paging parameters.\<close>

definition effective_page :: "jsnum \<Rightarrow> jsnum" where
  "effective_page p = (if js_lt p (Num 1) then Num 1 else p)"

definition effective_pageSize :: "jsnum \<Rightarrow> jsnum" where
  "effective_pageSize s =
     (if js_lt s (Num 1) \<or> js_gt s (Num 100) then Num DEFAULT_PAGE_SIZE else s)"

definition request_page :: "request \<Rightarrow> jsnum" where
  "request_page req = effective_page (parseInt (param_or req ''page'' ''1''))"

definition request_pageSize :: "request \<Rightarrow> jsnum" where
  "request_pageSize req =
     effective_pageSize (parseInt (param_or req ''pageSize'' (string_of_int DEFAULT_PAGE_SIZE)))"

text \<open>
  \<open>LIMIT ? OFFSET ?\<close> with the two bound numbers. SQLite takes a limit and an offset
  only when they convert to 64-bit integers without loss. A \<open>NaN\<close> or an infinity reaches
  D1 as \<open>NULL\<close>, and a number outside the 64-bit range stays a \<open>REAL\<close>: either is a
  datatype mismatch and the statement throws (\<open>None\<close>). A negative limit means no limit, a
  negative offset means none.
\<close>

definition is_int64 :: "int \<Rightarrow> bool" where
  "is_int64 n = (- 9223372036854775808 \<le> n \<and> n \<le> 9223372036854775807)"

fun sql_limit_offset :: "jsnum \<Rightarrow> jsnum \<Rightarrow> 'a list \<Rightarrow> 'a list option" where
  "sql_limit_offset (Num l) (Num off) rows =
     (if is_int64 l \<and> is_int64 off
      then Some (if l < 0 then drop (nat off) rows else take (nat l) (drop (nat off) rows))
      else None)"
| "sql_limit_offset _ _ rows = None"

text \<open>\<open>ORDER BY created_at DESC\<close>.\<close>

definition order_by_created_desc :: "'a article_cols_scheme list \<Rightarrow> 'a article_cols_scheme list" where
  "order_by_created_desc rows = sort_key (\<lambda>r. - created_at r) rows"

text \<open>
  \<open>articles a LEFT JOIN article_tags at ON a.id = at.article_id\<close>: the join rows of one
  article, a single row with \<open>NULL\<close>s when it has no tag.
\<close>

definition left_join_tags :: "database \<Rightarrow> article \<Rightarrow> article_tag option list" where
  "left_join_tags db a =
     (case filter (\<lambda>t. article_id t = art_id a) (article_tags db) of
        [] \<Rightarrow> [None]
      | ts \<Rightarrow> map Some ts)"

text \<open>The \<open>WHERE\<close> clause of the public list on one join row.\<close>

definition public_where ::
  "jsnum option \<Rightarrow> jsnum option \<Rightarrow> article \<Rightarrow> article_tag option \<Rightarrow> bool" where
  "public_where tagId categoryId a t =
     (status a = Published
      \<and> (case tagId of None \<Rightarrow> True | Some x \<Rightarrow> sql_eq (map_option tag_id t) x)
      \<and> (case categoryId of None \<Rightarrow> True | Some c \<Rightarrow> sql_eq (category_id a) c))"

text \<open>
  The data query of the public list without its \<open>LIMIT\<close> and \<open>OFFSET\<close>: the join is
  there only with a tag filter, the rows are \<open>DISTINCT\<close> and ordered.
\<close>

definition public_rows :: "database \<Rightarrow> jsnum option \<Rightarrow> jsnum option \<Rightarrow> article_cols list" where
  "public_rows db tagId categoryId =
     order_by_created_desc (remdups
       (case tagId of
          None \<Rightarrow> map article_cols.truncate
                    (filter (\<lambda>a. public_where tagId categoryId a None) (articles db))
        | Some x \<Rightarrow> [article_cols.truncate a.
                      a \<leftarrow> articles db, t \<leftarrow> left_join_tags db a,
                      public_where tagId categoryId a t]))"

text \<open>The count query: \<open>COUNT(*)\<close>, or \<open>COUNT(DISTINCT a.id)\<close> over the join.\<close>

definition public_count :: "database \<Rightarrow> jsnum option \<Rightarrow> jsnum option \<Rightarrow> int" where
  "public_count db tagId categoryId =
     (case tagId of
        None \<Rightarrow> int (length (filter (\<lambda>a. public_where tagId categoryId a None) (articles db)))
      | Some x \<Rightarrow> int (length (remdups
                    [art_id a. a \<leftarrow> articles db, t \<leftarrow> left_join_tags db a,
                               public_where tagId categoryId a t])))"

text \<open>The category of an article, looked up under \<open>article.category_id ? ... : null\<close>.\<close>

definition category_of :: "database \<Rightarrow> int option \<Rightarrow> category option" where
  "category_of db cid =
     (case cid of
        None \<Rightarrow> None
      | Some c \<Rightarrow> if c \<noteq> 0 then find (\<lambda>x. cat_id x = c) (categories db) else None)"

text \<open>\<open>tags t JOIN article_tags at ON t.id = at.tag_id WHERE at.article_id = ?\<close>.\<close>

definition tags_of :: "database \<Rightarrow> int \<Rightarrow> tag list" where
  "tags_of db i =
     [t. t \<leftarrow> database.tags db, r \<leftarrow> article_tags db, tg_id t = tag_id r \<and> article_id r = i]"

definition with_category_and_tags :: "database \<Rightarrow> article_cols \<Rightarrow> article_view" where
  "with_category_and_tags db a =
     article_cols.extend a
       (article_view.fields (category_of db (category_id a)) (tags_of db (art_id a)))"

definition handleGetArticles :: "database \<Rightarrow> request \<Rightarrow> response" where
  "handleGetArticles db req =
     (let pg = request_page req;
          ps = request_pageSize req;
          categoryId = truthy_param (param_int req ''categoryId'');
          tagId = truthy_param (param_int req ''tagId'');
          offset = js_mul (js_sub pg (Num 1)) ps
      in case sql_limit_offset ps offset (public_rows db tagId categoryId) of
           None \<Rightarrow> internalError ''Failed to fetch articles''
         | Some results \<Rightarrow>
             success (PArticleList
               \<lparr>data = map (with_category_and_tags db) results,
                total = public_count db tagId categoryId,
                page = pg, pageSize = ps\<rparr>) 200)"

text \<open>The admin list: an optional category and an optional status text, no join.\<close>

definition admin_where :: "jsnum option \<Rightarrow> string option \<Rightarrow> article \<Rightarrow> bool" where
  "admin_where categoryId st a =
     ((case categoryId of None \<Rightarrow> True | Some c \<Rightarrow> sql_eq (category_id a) c)
      \<and> (case st of None \<Rightarrow> True | Some s \<Rightarrow> status_text (status a) = s))"

definition admin_rows :: "database \<Rightarrow> jsnum option \<Rightarrow> string option \<Rightarrow> article_cols list" where
  "admin_rows db categoryId st =
     order_by_created_desc
       (map article_cols.truncate (filter (admin_where categoryId st) (articles db)))"

definition admin_count :: "database \<Rightarrow> jsnum option \<Rightarrow> string option \<Rightarrow> int" where
  "admin_count db categoryId st = int (length (filter (admin_where categoryId st) (articles db)))"

definition handleGetAdminArticles :: "database \<Rightarrow> request \<Rightarrow> response" where
  "handleGetAdminArticles db req =
     (let pg = request_page req;
          ps = request_pageSize req;
          categoryId = truthy_param (param_int req ''categoryId'');
          st = (case map_of (searchParams req) ''status'' of
                  None \<Rightarrow> None
                | Some s \<Rightarrow> if s = [] then None else Some s);
          offset = js_mul (js_sub pg (Num 1)) ps
      in case sql_limit_offset ps offset (admin_rows db categoryId st) of
           None \<Rightarrow> internalError ''Failed to fetch articles''
         | Some results \<Rightarrow>
             success (PAdminArticleList
               \<lparr>data = results, total = admin_count db categoryId st,
                page = pg, pageSize = ps\<rparr>) 200)"

text \<open>
  \<open>UPDATE articles SET view_count = view_count + 1 WHERE id = ? AND status = 'published'\<close>.
\<close>

definition increment_view_count :: "int \<Rightarrow> article list \<Rightarrow> article list" where
  "increment_view_count i rows =
     map (\<lambda>a. if art_id a = i \<and> status a = Published
              then a\<lparr>view_count := view_count a + 1\<rparr> else a) rows"

text \<open>
  The related articles: published, not the article itself, of its category or sharing one
  of its tags; the four with most views, newest first among equals.
\<close>

definition related_articles :: "database \<Rightarrow> int \<Rightarrow> int \<Rightarrow> related_row list" where
  "related_articles db i cat =
     (let own_tags = map tag_id (filter (\<lambda>r. article_id r = i) (article_tags db));
          rows = remdups
            [(art_id a, title a, cover a, description a, view_count a, created_at a).
               a \<leftarrow> articles db, t \<leftarrow> left_join_tags db a,
               art_id a \<noteq> i \<and> status a = Published
               \<and> (category_id a = Some cat
                  \<or> (case t of None \<Rightarrow> False | Some r \<Rightarrow> tag_id r \<in> set own_tags))]
      in take 4 (sort_key (\<lambda>(_, _, _, _, v, _). - v)
                  (sort_key (\<lambda>(_, _, _, _, _, c). - c) rows)))"

definition handleGetArticle :: "database \<Rightarrow> int \<Rightarrow> response \<times> database" where
  "handleGetArticle db i =
     (let db1 = db\<lparr>articles := increment_view_count i (articles db)\<rparr>
      in case find (\<lambda>a. art_id a = i \<and> status a = Published) (articles db1) of
           None \<Rightarrow> (notFound ''Article not found'', db1)
         | Some row \<Rightarrow>
             (let article = article_cols.truncate row;
                  cat = category_of db1 (category_id article);
                  tgs = tags_of db1 i;
                  related = related_articles db1 i
                              (case category_id article of
                                 None \<Rightarrow> 0
                               | Some c \<Rightarrow> c)
              in (success (PArticleDetail
                    (article_view.extend
                       (article_cols.extend article (article_view.fields cat tgs))
                       (article_detail.fields related))) 200,
                  db1)))"

text \<open>
  The action of a like request: \<open>'unlike'\<close> only when the body parses and its \<open>action\<close>
  property is that string; a body that does not parse, and a \<open>TypeError\<close> on reading the
  property of \<open>null\<close>, are caught and leave the default \<open>'like'\<close>.
\<close>

definition like_action :: "request \<Rightarrow> string" where
  "like_action req =
     (case json_body req of
        None \<Rightarrow> ''like''
      | Some body \<Rightarrow>
          (case js_prop body ''action'' of
             None \<Rightarrow> ''like''
           | Some v \<Rightarrow> if v = Some (JStr ''unlike'') then ''unlike'' else ''like''))"

definition handleLikeArticle :: "database \<Rightarrow> request \<Rightarrow> int \<Rightarrow> response \<times> database" where
  "handleLikeArticle db req i =
     (let action = like_action req
      in case find (\<lambda>a. art_id a = i \<and> status a = Published) (articles db) of
           None \<Rightarrow> (notFound ''Article not found'', db)
         | Some article \<Rightarrow>
             (let currentLikes = like_count article
              in if action = ''unlike''
                 then (let newLikeCount = max 0 (currentLikes - 1)
                       in (success (PLike (action = ''like'') newLikeCount) 200,
                           db\<lparr>articles :=
                                map (\<lambda>a. if art_id a = i then a\<lparr>like_count := newLikeCount\<rparr> else a)
                                    (articles db)\<rparr>))
                 else (let newLikeCount = currentLikes + 1
                       in (success (PLike (action = ''like'') newLikeCount) 200,
                           db\<lparr>articles :=
                                map (\<lambda>a. if art_id a = i then a\<lparr>like_count := like_count a + 1\<rparr>
                                         else a)
                                    (articles db)\<rparr>))))"

section \<open>Upload (handlers/upload.ts)\<close>

definition ALLOWED_MIME_TYPES :: "string list" where
  "ALLOWED_MIME_TYPES =
     [''image/jpeg'', ''image/png'', ''image/gif'', ''image/webp'', ''image/svg+xml'']"

definition MAX_FILE_SIZE :: int where
  "MAX_FILE_SIZE = 10 * 1024 * 1024"

definition MIME_TO_EXT :: "string \<rightharpoonup> string" where
  "MIME_TO_EXT =
     map_of [(''image/jpeg'', ''.jpg''), (''image/png'', ''.png''), (''image/gif'', ''.gif''),
             (''image/webp'', ''.webp''), (''image/svg+xml'', ''.svg'')]"

text \<open>
  \<open>generateUniqueFilename(mimeType)\<close>: the time in milliseconds, a dash, the 32
  hexadecimal characters of \<open>generateSecureToken(16)\<close> (an input \<open>random\<close> of the
  model) and the extension.
\<close>

definition generateUniqueFilename :: "string \<Rightarrow> int \<Rightarrow> string \<Rightarrow> string" where
  "generateUniqueFilename mimeType now random =
     string_of_int now @ ''-'' @ random
       @ (case MIME_TO_EXT mimeType of None \<Rightarrow> ''.bin'' | Some ext \<Rightarrow> ext)"

definition isValidImageType :: "string \<Rightarrow> bool" where
  "isValidImageType mimeType = (mimeType \<in> set ALLOWED_MIME_TYPES)"

definition isValidFileSize :: "int \<Rightarrow> bool" where
  "isValidFileSize sz = (sz > 0 \<and> sz \<le> MAX_FILE_SIZE)"

text \<open>\<open>ALLOWED_MIME_TYPES.join(', ')\<close>.\<close>

fun join_comma :: "string list \<Rightarrow> string" where
  "join_comma [] = []"
| "join_comma [x] = x"
| "join_comma (x # y # ys) = x @ '', '' @ join_comma (y # ys)"

definition invalid_type_message :: string where
  "invalid_type_message = ''Invalid file type. Allowed types: '' @ join_comma ALLOWED_MIME_TYPES"

definition too_large_message :: string where
  "too_large_message =
     ''File too large. Maximum size: '' @ string_of_int (MAX_FILE_SIZE div 1024 div 1024) @ ''MB''"

text \<open>The R2 bucket: object name to content and content type.\<close>

type_synonym bucket = "string \<rightharpoonup> string \<times> string"

definition store_upload ::
  "bucket \<Rightarrow> string \<Rightarrow> string \<Rightarrow> int \<Rightarrow> string \<Rightarrow> response \<times> bucket" where
  "store_upload b mimeType bytes now random =
     (let filename = generateUniqueFilename mimeType now random;
          url = ''/uploads/'' @ filename
      in (success (PUpload url filename) 201, b(filename \<mapsto> (bytes, mimeType))))"

definition handleUpload :: "bucket \<Rightarrow> int \<Rightarrow> string \<Rightarrow> request \<Rightarrow> response \<times> bucket" where
  "handleUpload b now random req =
     (if req_method req \<noteq> ''POST'' then (badRequest ''Method not allowed'', b)
      else
        (let contentType = (case h_content_type req of None \<Rightarrow> [] | Some c \<Rightarrow> c)
         in if js_includes contentType ''multipart/form-data''
            then (case form_data req of
                    FormThrows \<Rightarrow> (internalError ''Failed to upload file'', b)
                  | FormNoFile \<Rightarrow> (badRequest ''No file provided'', b)
                  | FormText s \<Rightarrow>
                      if s = [] then (badRequest ''No file provided'', b)
                      else (badRequest invalid_type_message, b)
                  | FormFile ftype bytes \<Rightarrow>
                      if \<not> isValidImageType ftype then (badRequest invalid_type_message, b)
                      else if \<not> isValidFileSize (int (length bytes))
                      then (badRequest too_large_message, b)
                      else store_upload b ftype bytes now random)
            else
              (let mimeType = trim (split_first (CHR '';'') contentType)
               in if \<not> isValidImageType mimeType then (badRequest invalid_type_message, b)
                  else if \<not> isValidFileSize (int (length (body_bytes req)))
                  then (badRequest too_large_message, b)
                  else store_upload b mimeType (body_bytes req) now random)))"

section \<open>Login (handlers/auth.ts)\<close>

text \<open>\<open>INPUT_LIMITS\<close> for the two fields that \<open>handleLogin\<close> validates.\<close>

datatype limited_field = Username | Password

fun field_name :: "limited_field \<Rightarrow> string" where
  "field_name Username = ''username''"
| "field_name Password = ''password''"

fun INPUT_LIMITS :: "limited_field \<Rightarrow> nat \<times> nat" where
  "INPUT_LIMITS Username = (1, 50)"
| "INPUT_LIMITS Password = (6, 100)"

text \<open>\<open>validateStringLength(value, field)\<close>: \<open>None\<close> when valid, else the message.\<close>

definition validateStringLength :: "string \<Rightarrow> limited_field \<Rightarrow> string option" where
  "validateStringLength v f =
     (let (mn, mx) = INPUT_LIMITS f
      in if length v < mn
         then Some (field_name f @ '' must be at least '' @ string_of_nat mn @ '' characters'')
         else if length v > mx
         then Some (field_name f @ '' must not exceed '' @ string_of_nat mx @ '' characters'')
         else None)"

text \<open>
  \<open>!body.f || typeof body.f !== 'string'\<close> is false exactly for a non-empty string.
\<close>

fun required_string :: "json option \<Rightarrow> string option" where
  "required_string (Some (JStr s)) = (if s = [] then None else Some s)"
| "required_string _ = None"

text \<open>
  \<open>handleLogin\<close> at time \<open>now\<close>. The body is read outside the \<open>try\<close> that guards the
  database: reading \<open>username\<close> of a body that is JSON \<open>null\<close> throws a \<open>TypeError\<close>
  that the handler does not catch (\<open>None\<close>).
\<close>

definition handleLogin ::
  "externals \<Rightarrow> env \<Rightarrow> int \<Rightarrow> database \<Rightarrow> request \<Rightarrow> response option" where
  "handleLogin X e now db req =
     (if req_method req \<noteq> ''POST'' then Some (badRequest ''Method not allowed'')
      else case json_body req of
        None \<Rightarrow> Some (badRequest ''Invalid JSON body'')
      | Some body \<Rightarrow>
          (case (js_prop body ''username'', js_prop body ''password'') of
             (Some u, Some p) \<Rightarrow>
               (case required_string u of
                  None \<Rightarrow> Some (badRequest ''Username is required'')
                | Some uname \<Rightarrow>
                    (case required_string p of
                       None \<Rightarrow> Some (badRequest ''Password is required'')
                     | Some password \<Rightarrow>
                         (case validateStringLength uname Username of
                            Some m \<Rightarrow> Some (badRequest m)
                          | None \<Rightarrow>
                              (case validateStringLength password Password of
                                 Some m \<Rightarrow> Some (badRequest m)
                               | None \<Rightarrow>
                                   (case find (\<lambda>a. adm_username a = uname) (admins db) of
                                      None \<Rightarrow> Some (unauthorized ''Invalid username or password'')
                                    | Some result \<Rightarrow>
                                        if \<not> bcrypt_compare X password (adm_password_hash result)
                                        then Some (unauthorized ''Invalid username or password'')
                                        else
                                          (let token = signToken X (string_of_int (adm_id result))
                                                         (adm_username result) (JWT_SECRET e) now;
                                               expiresAt = now div 1000 + getTokenExpirationSeconds
                                           in Some (success (PLogin token expiresAt) 200)))))))
           | _ \<Rightarrow> None))"

section \<open>Further predicates of the statements\<close>

text \<open>The number of articles whose \<open>category_id\<close> is the given category.\<close>

definition referencing_articles :: "database \<Rightarrow> int \<Rightarrow> nat" where
  "referencing_articles db i = length (filter (\<lambda>a. category_id a = Some i) (articles db))"

text \<open>The rows that the public detail endpoint serves: published, with the given id.\<close>

definition is_published_with_id :: "int \<Rightarrow> article \<Rightarrow> bool" where
  "is_published_with_id i a = (art_id a = i \<and> status a = Published)"

text \<open>
  The file that \<open>handleUpload\<close> validates, with its MIME type: the \<open>file\<close> field of a
  multipart form, or else the raw body under the media type of \<open>Content-Type\<close>.
\<close>

definition uploaded_file :: "request \<Rightarrow> (string \<times> string) option" where
  "uploaded_file req =
     (let contentType = (case h_content_type req of None \<Rightarrow> [] | Some c \<Rightarrow> c)
      in if js_includes contentType ''multipart/form-data''
         then (case form_data req of FormFile ftype bytes \<Rightarrow> Some (ftype, bytes) | _ \<Rightarrow> None)
         else Some (trim (split_first (CHR '';'') contentType), body_bytes req))"

text \<open>
  The claims that \<open>signToken\<close> hands to \<open>jose\<close> for an admin at time \<open>now_ms\<close>:
  \<open>sub = String(id)\<close>, the username, \<open>iat\<close> in seconds and \<open>exp = iat + 86400\<close>.
\<close>

definition issued_claims :: "admin \<Rightarrow> int \<Rightarrow> jose_payload" where
  "issued_claims a now_ms =
     \<lparr>claim_sub = Some (JStr (string_of_int (adm_id a))),
      claim_username = Some (JStr (adm_username a)),
      claim_iat = Some (JNum (now_ms div 1000)),
      claim_exp = Some (JNum (now_ms div 1000 + 86400))\<rparr>"

text \<open>
  Clamping as the specification words it (\<open>page \<ge> 1\<close>, \<open>1 \<le> pageSize \<le> 100\<close>): a value outside the
  range is moved to the nearest bound. The handlers do this for the page only, see
  \<open>effective_page\<close> and \<open>effective_pageSize\<close>.
\<close>

definition spec_clamp :: "int \<Rightarrow> int \<Rightarrow> int \<Rightarrow> int" where
  "spec_clamp lo hi x = max lo (min hi x)"

section \<open>Sample inputs\<close>

text \<open>Concrete inputs at which the theorems below are instantiated.\<close>

definition sample_externals :: externals where
  "sample_externals =
     \<lparr>jose_sign = (\<lambda>p k. ''t0''),
      jose_jwtVerify = (\<lambda>t k n.
         if t = ''t0'' \<and> k = ''secret'' \<and> n < 86400000
         then Some \<lparr>claim_sub = Some (JStr ''1''), claim_username = Some (JStr ''admin''),
                    claim_iat = Some (JNum 0), claim_exp = Some (JNum 86400)\<rparr>
         else None),
      bcrypt_compare = (\<lambda>p h. h = ''bcrypt:'' @ p)\<rparr>"

definition sample_request :: request where
  "sample_request =
     \<lparr>req_method = ''GET'', pathname = ''/api/admin/articles'', searchParams = [],
      h_authorization = None, h_content_type = None, h_content_length = None,
      h_cf_connecting_ip = None, h_x_forwarded_for = None,
      json_body = None, form_data = FormNoFile, body_bytes = []\<rparr>"

definition sample_login :: request where
  "sample_login =
     \<lparr>req_method = ''POST'', pathname = ''/api/login'', searchParams = [],
      h_authorization = None, h_content_type = Some ''application/json'',
      h_content_length = None,
      h_cf_connecting_ip = Some ''203.0.113.7'', h_x_forwarded_for = None,
      json_body = None, form_data = FormNoFile, body_bytes = []\<rparr>"

definition sample_env :: env where
  "sample_env = \<lparr>JWT_SECRET = ''secret''\<rparr>"

definition sample_public :: request where
  "sample_public = sample_request\<lparr>pathname := ''/api/articles''\<rparr>"

definition sample_category1 :: category where
  "sample_category1 =
     \<lparr>cat_id = 1, cat_name = ''Tech'', cat_slug = ''tech'', cat_description = None,
      cat_created_at = 100\<rparr>"

definition sample_category2 :: category where
  "sample_category2 =
     \<lparr>cat_id = 2, cat_name = ''Life'', cat_slug = ''life'', cat_description = None,
      cat_created_at = 110\<rparr>"

definition sample_tag1 :: tag where
  "sample_tag1 = \<lparr>tg_id = 1, tg_name = ''Proofs'', tg_slug = ''proofs'', tg_created_at = 50\<rparr>"

definition sample_article1 :: article where
  "sample_article1 =
     \<lparr>art_id = 1, title = ''A'', content = ''B'', cover = None, category_id = Some 1,
      description = None, keywords_col = None, status = Published, view_count = 7,
      like_count = 0, created_at = 200, updated_at = 200, is_pinned = 0\<rparr>"

definition sample_article2 :: article where
  "sample_article2 =
     \<lparr>art_id = 2, title = ''C'', content = ''D'', cover = None, category_id = Some 1,
      description = None, keywords_col = None, status = Draft, view_count = 0,
      like_count = 3, created_at = 210, updated_at = 210, is_pinned = 0\<rparr>"

definition sample_article3 :: article where
  "sample_article3 =
     \<lparr>art_id = 3, title = ''E'', content = ''F'', cover = None, category_id = None,
      description = None, keywords_col = None, status = Published, view_count = 1,
      like_count = 2, created_at = 220, updated_at = 220, is_pinned = 1\<rparr>"

definition sample_db :: database where
  "sample_db =
     \<lparr>admins = [\<lparr>adm_id = 1, adm_username = ''admin'', adm_password_hash = ''bcrypt:admin123''\<rparr>],
      categories = [sample_category1, sample_category2],
      tags = [sample_tag1],
      articles = [sample_article1, sample_article2, sample_article3],
      article_tags = [\<lparr>article_id = 3, tag_id = 1\<rparr>]\<rparr>"

definition sample_like :: request where
  "sample_like = sample_request\<lparr>req_method := ''POST'', pathname := ''/api/article/3/like''\<rparr>"

text \<open>Bodies of 4 KB, of exactly 10 MB and of 11 MB.\<close>

definition body_4k :: string where
  "body_4k = replicate 4096 (CHR 0x25)"

definition body_10mb :: string where
  "body_10mb = replicate 10485760 (CHR 0x89)"

definition body_11mb :: string where
  "body_11mb = replicate 11534336 (CHR 0x89)"

definition sample_upload :: request where
  "sample_upload =
     \<lparr>req_method = ''POST'', pathname = ''/api/upload'', searchParams = [],
      h_authorization = Some ''Bearer t0'', h_content_type = Some ''image/png'',
      h_content_length = None,
      h_cf_connecting_ip = None, h_x_forwarded_for = None,
      json_body = None, form_data = FormThrows, body_bytes = body_10mb\<rparr>"

text \<open>An 11 MB PNG sent the usual way, with its \<open>Content-Length\<close>.\<close>

definition sample_big_upload :: request where
  "sample_big_upload =
     sample_upload\<lparr>h_content_length := Some ''11534336'', body_bytes := body_11mb\<rparr>"

definition sample_credentials :: request where
  "sample_credentials =
     sample_login\<lparr>json_body :=
       Some (JObj [(''username'', JStr ''admin''), (''password'', JStr ''admin123'')])\<rparr>"

definition sample_page2 :: request where
  "sample_page2 = sample_public\<lparr>searchParams := [(''page'', ''2''), (''pageSize'', ''1'')]\<rparr>"

section \<open>Properties of the numbers\<close>

text \<open>Up to \<open>2^53\<close> a double holds every integer: nothing is rounded.\<close>

lemma to_double_exact [simp]:
  "\<bar>i\<bar> \<le> 9007199254740992 \<Longrightarrow> to_double i = Num i"
  by (simp add: to_double_def MAX_EXACT_def)

lemma bit_length_eq: "2 ^ k \<le> n \<Longrightarrow> n < 2 ^ Suc k \<Longrightarrow> bit_length n = Suc k"
proof (induction k arbitrary: n)
  case 0
  then have "n = 1" by simp
  then show ?case by (simp add: bit_length.simps)
next
  case (Suc k)
  from Suc.prems have "2 ^ k \<le> n div 2" "n div 2 < 2 ^ Suc k" by auto
  from Suc.IH[OF this] Suc.prems show ?case
    by (subst bit_length.simps) auto
qed

text \<open>
  Beyond \<open>2^53\<close> doubles are rounded: \<open>2^53 + 1\<close> is \<open>2^53\<close>, \<open>2^53 + 3\<close> is
  \<open>2^53 + 4\<close>, and \<open>10^18 - 1\<close> is \<open>10^18\<close>; \<open>10^18\<close> and \<open>10^19\<close> are doubles.
\<close>

lemma to_double_rounds:
  "to_double 9007199254740993 = Num 9007199254740992"
  "to_double 9007199254740995 = Num 9007199254740996"
  "to_double 999999999999999999 = Num 1000000000000000000"
  "to_double 1000000000000000000 = Num 1000000000000000000"
  "to_double 10000000000000000000 = Num 10000000000000000000"
proof -
  have b54: "bit_length 9007199254740993 = 54" "bit_length 9007199254740995 = 54"
    using bit_length_eq[of 53 9007199254740993] bit_length_eq[of 53 9007199254740995]
    by simp_all
  have b60: "bit_length 999999999999999999 = 60" "bit_length 1000000000000000000 = 60"
    using bit_length_eq[of 59 999999999999999999] bit_length_eq[of 59 1000000000000000000]
    by simp_all
  have b64: "bit_length 10000000000000000000 = 64"
    using bit_length_eq[of 63 10000000000000000000] by simp
  have r: "round_half_even (Suc 0) 9007199254740993 = 9007199254740992"
    "round_half_even (Suc 0) 9007199254740995 = 9007199254740996"
    "round_half_even 7 999999999999999999 = 1000000000000000000"
    "round_half_even 7 1000000000000000000 = 1000000000000000000"
    "round_half_even 11 10000000000000000000 = 10000000000000000000"
    by (simp_all add: round_half_even_def Let_def)
  show "to_double 9007199254740993 = Num 9007199254740992"
    by (simp add: to_double_def MAX_EXACT_def Let_def b54 r)
  show "to_double 9007199254740995 = Num 9007199254740996"
    by (simp add: to_double_def MAX_EXACT_def Let_def b54 r)
  show "to_double 999999999999999999 = Num 1000000000000000000"
    by (simp add: to_double_def MAX_EXACT_def Let_def b60 r)
  show "to_double 1000000000000000000 = Num 1000000000000000000"
    by (simp add: to_double_def MAX_EXACT_def Let_def b60 r)
  show "to_double 10000000000000000000 = Num 10000000000000000000"
    by (simp add: to_double_def MAX_EXACT_def Let_def b64 r)
qed

section \<open>Properties of the authorization gate\<close>

lemma length_bearer_prefix: "length ''Bearer '' = 7"
  by simp

lemma unauthorized_status: "resp_status (unauthorized m) = 401"
  by (simp add: unauthorized_def error_def)

lemma unauthorized_body: "resp_body (unauthorized m) = Failure ''UNAUTHORIZED'' m"
  by (simp add: unauthorized_def error_def)

text \<open>
  Claim C10. \<open>extractBearerToken\<close> returns a token exactly when the header value starts
  with the literal \<open>Bearer \<close> (compared character by character, so case-sensitively) and
  what follows is not empty once trimmed; the token is that trimmed rest. A lowercase
  \<open>bearer\<close> scheme, a \<open>Basic\<close> header and \<open>Bearer\<close> followed by spaces only give
  \<open>null\<close>, and whenever the result is \<open>null\<close> the gate answers 401 \<open>UNAUTHORIZED\<close>.
\<close>

theorem extractBearerToken_case_sensitive_prefix:
  "(extractBearerToken h = Some t) =
     (\<exists>s. h = Some s \<and> prefix ''Bearer '' s \<and> t = trim (drop 7 s) \<and> t \<noteq> [])
   \<and> extractBearerToken (Some ''bearer abc.def.ghi'') = None
   \<and> extractBearerToken (Some ''Basic dXNlcjpwYXNz'') = None
   \<and> extractBearerToken (Some ''Bearer    '') = None
   \<and> (extractBearerToken (h_authorization req) = None \<longrightarrow>
        (\<exists>r. authMiddleware X e now req = Inl r \<and> resp_status r = 401
             \<and> resp_body r = Failure ''UNAUTHORIZED'' ''Missing or invalid authorization header''))"
proof -
  have iff: "(extractBearerToken h = Some t) =
     (\<exists>s. h = Some s \<and> prefix ''Bearer '' s \<and> t = trim (drop 7 s) \<and> t \<noteq> [])"
    unfolding extractBearerToken_def startsWith_def length_bearer_prefix
    by (cases h) (auto simp: Let_def)
  have lower: "extractBearerToken (Some ''bearer abc.def.ghi'') = None"
    by (simp add: extractBearerToken_def startsWith_def)
  have basic: "extractBearerToken (Some ''Basic dXNlcjpwYXNz'') = None"
    by (simp add: extractBearerToken_def startsWith_def)
  have spaces: "extractBearerToken (Some ''Bearer    '') = None"
    by (simp add: extractBearerToken_def startsWith_def trim_def is_js_space_def)
  have gate: "extractBearerToken (h_authorization req) = None \<longrightarrow>
        (\<exists>r. authMiddleware X e now req = Inl r \<and> resp_status r = 401
             \<and> resp_body r = Failure ''UNAUTHORIZED'' ''Missing or invalid authorization header'')"
    by (simp add: authMiddleware_def unauthorized_status unauthorized_body)
  from iff lower basic spaces gate show ?thesis by blast
qed

theorem extractBearerToken_case_sensitive_prefix_witness:
  "extractBearerToken (Some ''Bearer   eyJ.test   '') = Some ''eyJ.test''
   \<and> (\<exists>r. authMiddleware sample_externals \<lparr>JWT_SECRET = ''k''\<rparr> 0
             (sample_request\<lparr>h_authorization := Some ''bearer abc.def.ghi''\<rparr>) = Inl r
          \<and> resp_status r = 401)"
  using extractBearerToken_case_sensitive_prefix
    [of "Some ''Bearer   eyJ.test   ''" "''eyJ.test''"
        "sample_request\<lparr>h_authorization := Some ''bearer abc.def.ghi''\<rparr>"
        sample_externals "\<lparr>JWT_SECRET = ''k''\<rparr>" 0]
  by (auto simp add: sample_request_def trim_def is_js_space_def)

section \<open>Properties of the rate limiter\<close>

lemma first_call:
  assumes "window_opens store key t0"
  shows "checkRateLimit key config t0 store =
     (\<lparr>allowed = True, remaining = maxRequests config - 1, result_resetTime = t0 + windowMs config\<rparr>,
      store(key \<mapsto> \<lparr>count = 1, resetTime = t0 + windowMs config\<rparr>))"
  using assms by (auto simp: checkRateLimit_def window_opens_def Let_def split: option.splits)

lemma window_call:
  assumes "store key = Some \<lparr>count = c, resetTime = R\<rparr>" "t \<le> R"
  shows "checkRateLimit key config t store =
     (if c \<ge> maxRequests config
      then (\<lparr>allowed = False, remaining = 0, result_resetTime = R\<rparr>, store)
      else (\<lparr>allowed = True, remaining = maxRequests config - (c + 1), result_resetTime = R\<rparr>,
            store(key \<mapsto> \<lparr>count = c + 1, resetTime = R\<rparr>)))"
  using assms by (auto simp: checkRateLimit_def Let_def)

lemma calls_Cons_fst:
  "fst (checkRateLimit_calls key config (t # ts) store) =
     fst (checkRateLimit key config t store)
     # fst (checkRateLimit_calls key config ts (snd (checkRateLimit key config t store)))"
  by (simp add: case_prod_beta Let_def)

lemma calls_Cons_snd:
  "snd (checkRateLimit_calls key config (t # ts) store) =
     snd (checkRateLimit_calls key config ts (snd (checkRateLimit key config t store)))"
  by (simp add: case_prod_beta Let_def)

lemma window_calls:
  assumes "store key = Some \<lparr>count = c, resetTime = R\<rparr>" "\<forall>t\<in>set ts. t \<le> R"
  shows "map allowed (fst (checkRateLimit_calls key config ts store)) =
           replicate (min (nat (maxRequests config - c)) (length ts)) True
           @ replicate (length ts - nat (maxRequests config - c)) False
       \<and> (\<forall>r\<in>set (fst (checkRateLimit_calls key config ts store)).
             \<not> allowed r \<longrightarrow> remaining r = 0 \<and> result_resetTime r = R)
       \<and> snd (checkRateLimit_calls key config ts store) key =
           Some \<lparr>count = (if c \<ge> maxRequests config then c
                           else min (maxRequests config) (c + int (length ts))),
                 resetTime = R\<rparr>"
  using assms
proof (induction ts arbitrary: store c)
  case Nil
  then show ?case by simp
next
  case (Cons t ts)
  from Cons.prems have tR: "t \<le> R" and rest: "\<forall>t\<in>set ts. t \<le> R" by simp_all
  show ?case
  proof (cases "c \<ge> maxRequests config")
    case True
    have step: "checkRateLimit key config t store =
        (\<lparr>allowed = False, remaining = 0, result_resetTime = R\<rparr>, store)"
      using window_call[of store key c R t config] Cons.prems(1) tR True by simp
    have n0: "nat (maxRequests config - c) = 0" using True by simp
    from Cons.IH[of store c] Cons.prems(1) rest True
    show ?thesis
      unfolding calls_Cons_fst calls_Cons_snd step n0 by simp
  next
    case False
    let ?s = "store(key \<mapsto> \<lparr>count = c + 1, resetTime = R\<rparr>)"
    have step: "checkRateLimit key config t store =
        (\<lparr>allowed = True, remaining = maxRequests config - (c + 1), result_resetTime = R\<rparr>, ?s)"
      using window_call[of store key c R t config] Cons.prems(1) tR False by simp
    have k: "?s key = Some \<lparr>count = c + 1, resetTime = R\<rparr>" by simp
    have n: "nat (maxRequests config - c) = Suc (nat (maxRequests config - (c + 1)))"
      using False by linarith
    have cnt: "(if c + 1 \<ge> maxRequests config then c + 1
                else min (maxRequests config) (c + 1 + int (length ts)))
               = min (maxRequests config) (c + int (length (t # ts)))"
      using False by (simp add: min_def)
    have ih: "map allowed (fst (checkRateLimit_calls key config ts ?s)) =
           replicate (min (nat (maxRequests config - (c + 1))) (length ts)) True
           @ replicate (length ts - nat (maxRequests config - (c + 1))) False
       \<and> (\<forall>r\<in>set (fst (checkRateLimit_calls key config ts ?s)).
             \<not> allowed r \<longrightarrow> remaining r = 0 \<and> result_resetTime r = R)
       \<and> snd (checkRateLimit_calls key config ts ?s) key =
           Some \<lparr>count = min (maxRequests config) (c + int (length (t # ts))), resetTime = R\<rparr>"
      using Cons.IH[of ?s "c + 1"] k rest unfolding cnt by blast
    have a1: "map allowed (fst (checkRateLimit_calls key config (t # ts) store)) =
           replicate (min (nat (maxRequests config - c)) (length (t # ts))) True
           @ replicate (length (t # ts) - nat (maxRequests config - c)) False"
      unfolding calls_Cons_fst step n using ih by simp
    have a2: "\<forall>r\<in>set (fst (checkRateLimit_calls key config (t # ts) store)).
             \<not> allowed r \<longrightarrow> remaining r = 0 \<and> result_resetTime r = R"
      unfolding calls_Cons_fst step using ih by simp
    have a3: "snd (checkRateLimit_calls key config (t # ts) store) key =
           Some \<lparr>count = min (maxRequests config) (c + int (length (t # ts))), resetTime = R\<rparr>"
      unfolding calls_Cons_snd step using ih by simp
    from a1 a2 a3 False show ?thesis by simp
  qed
qed

lemma login_step:
  assumes "pathname req = ''/api/login''" "req_method req = ''POST''"
  shows "snd (handleRequest X e now store req) =
           snd (checkRateLimit (''login:'' @ getClientIP req) login_limit now store)"
    and "\<not> allowed (fst (checkRateLimit (''login:'' @ getClientIP req) login_limit now store)) \<Longrightarrow>
         fst (handleRequest X e now store req) =
           Respond (tooManyRequests ''Too many login attempts. Please try again later.''
             (Some (ceil_div (result_resetTime (fst (checkRateLimit (''login:'' @ getClientIP req) login_limit now store)) - now) 1000)))"
  using assms by (auto simp: handleRequest_def login_limit_def Let_def split: prod.splits)

lemma handle_requests_Cons_snd:
  "snd (handle_requests X e store ((t, r) # rest)) =
     snd (handle_requests X e (snd (handleRequest X e t store r)) rest)"
  by (simp add: case_prod_beta Let_def)

lemma login_requests_store:
  assumes "\<forall>(t, r)\<in>set attempts. pathname r = ''/api/login'' \<and> req_method r = ''POST'' \<and> getClientIP r = ip"
  shows "snd (handle_requests X e store attempts) =
         snd (checkRateLimit_calls (''login:'' @ ip) login_limit (map fst attempts) store)"
  using assms
proof (induction attempts arbitrary: store)
  case Nil
  then show ?case by simp
next
  case (Cons a attempts)
  obtain t r where a: "a = (t, r)" by (cases a)
  from Cons.prems a have r: "pathname r = ''/api/login''" "req_method r = ''POST''" "getClientIP r = ip"
    by auto
  from Cons.prems have rest: "\<forall>(t, r)\<in>set attempts. pathname r = ''/api/login'' \<and> req_method r = ''POST'' \<and> getClientIP r = ip"
    by simp
  have "snd (handle_requests X e store (a # attempts)) =
        snd (handle_requests X e (snd (handleRequest X e t store r)) attempts)"
    unfolding a by (rule handle_requests_Cons_snd)
  also have "\<dots> = snd (checkRateLimit_calls (''login:'' @ ip) login_limit (map fst attempts)
                       (snd (handleRequest X e t store r)))"
    by (rule Cons.IH[OF rest])
  also have "snd (handleRequest X e t store r) =
             snd (checkRateLimit (''login:'' @ ip) login_limit t store)"
    using login_step(1)[OF r(1,2), of X e t store] r(3) by simp
  finally show ?case
    unfolding a by (simp only: list.map fst_conv calls_Cons_snd)
qed

lemma retry_after_header:
  assumes "n \<noteq> 0"
  shows "map_of (resp_headers (tooManyRequests m (Some n))) ''Retry-After'' = Some (string_of_int n)"
    and "resp_status (tooManyRequests m (Some n)) = 429"
    and "resp_body (tooManyRequests m (Some n)) = Failure ''TOO_MANY_REQUESTS'' m"
  using assms by (simp_all add: tooManyRequests_def error_def Let_def)

lemma too_many_status:
  "resp_status (tooManyRequests m ra) = 429"
  "resp_body (tooManyRequests m ra) = Failure ''TOO_MANY_REQUESTS'' m"
  by (simp_all add: tooManyRequests_def error_def Let_def split: option.splits)

lemma ceil_div_bounds:
  assumes "0 < x" "x \<le> 60000"
  shows "1 \<le> ceil_div x 1000 \<and> ceil_div x 1000 \<le> 60"
  using assms unfolding ceil_div_def by linarith

text \<open>
  After at least five login attempts from one client IP in a window, a further attempt of
  the window is answered by \<open>tooManyRequests\<close>, called with
  \<open>ceil((resetTime - now) / 1000)\<close>.
\<close>

lemma sixth_login_refused:
  assumes opens_login: "window_opens lstore (''login:'' @ ip) t1"
      and five: "4 \<le> length later"
      and logins: "\<forall>(t, r)\<in>set ((t1, r1) # later @ [(t6, r6)]).
                     pathname r = ''/api/login'' \<and> req_method r = ''POST'' \<and> getClientIP r = ip
                     \<and> t \<le> t1 + 60000"
  shows "fst (handleRequest X e t6 (snd (handle_requests X e lstore ((t1, r1) # later))) r6) =
      Respond (tooManyRequests ''Too many login attempts. Please try again later.''
                 (Some (ceil_div (t1 + 60000 - t6) 1000)))"
proof -
  have mx: "maxRequests login_limit = 5" by (simp add: login_limit_def)
  let ?k = "''login:'' @ ip"
  let ?L = "t1 + 60000"
  let ?l1 = "lstore(?k \<mapsto> \<lparr>count = 1, resetTime = ?L\<rparr>)"
  have all_login: "\<forall>(t, r)\<in>set ((t1, r1) # later).
        pathname r = ''/api/login'' \<and> req_method r = ''POST'' \<and> getClientIP r = ip"
    using logins by auto
  have more_times: "\<forall>t\<in>set (map fst later). t \<le> ?L"
    using logins by auto
  have r6: "pathname r6 = ''/api/login''" "req_method r6 = ''POST''" "getClientIP r6 = ip" "t6 \<le> ?L"
    using logins by auto
  have st: "snd (handle_requests X e lstore ((t1, r1) # later)) =
            snd (checkRateLimit_calls ?k login_limit (t1 # map fst later) lstore)"
    using login_requests_store[OF all_login, of X e lstore] by simp
  have lfirst: "checkRateLimit ?k login_limit t1 lstore =
      (\<lparr>allowed = True, remaining = 4, result_resetTime = ?L\<rparr>, ?l1)"
    using first_call[OF opens_login, of login_limit] by (simp add: login_limit_def)
  have lk1: "?l1 ?k = Some \<lparr>count = 1, resetTime = ?L\<rparr>" by simp
  have cnt: "snd (handle_requests X e lstore ((t1, r1) # later)) ?k =
             Some \<lparr>count = 5, resetTime = ?L\<rparr>"
    unfolding st calls_Cons_snd lfirst
    using window_calls[of ?l1 ?k 1 ?L "map fst later" login_limit, OF lk1 more_times] five
    by (simp add: mx)
  have denied: "checkRateLimit ?k login_limit t6 (snd (handle_requests X e lstore ((t1, r1) # later)))
       = (\<lparr>allowed = False, remaining = 0, result_resetTime = ?L\<rparr>,
          snd (handle_requests X e lstore ((t1, r1) # later)))"
    using window_call[of "snd (handle_requests X e lstore ((t1, r1) # later))" ?k 5 ?L t6 login_limit] cnt r6(4)
    by (simp add: mx)
  show ?thesis
    using login_step(2)[OF r6(1,2), of t6 "snd (handle_requests X e lstore ((t1, r1) # later))" X e]
      denied r6(3) by simp
qed



lemma s59: "string_of_int 59 = ''59''" by code_simp


section \<open>Properties of the dispatcher\<close>

lemma verifyToken_iff:
  "(verifyToken X token secret now \<noteq> None) =
     (case jose_jwtVerify X token secret now of None \<Rightarrow> False | Some p \<Rightarrow> has_required_claims p)"
  by (auto simp: verifyToken_def has_required_claims_def split: option.splits json.splits)

lemma authMiddleware_success_iff:
  "isAuthSuccess (authMiddleware X e now req) = carries_valid_token X e now req"
  by (auto simp: isAuthSuccess_def authMiddleware_def carries_valid_token_def verifyToken_def
      has_required_claims_def split: option.splits json.splits)

lemma authMiddleware_failure:
  assumes "\<not> carries_valid_token X e now req"
  shows "authMiddleware X e now req = Inl (unauthorized ''Missing or invalid authorization header'')
       \<or> authMiddleware X e now req = Inl (unauthorized ''Invalid or expired token'')"
  using assms authMiddleware_success_iff[of X e now req]
  by (auto simp: isAuthSuccess_def authMiddleware_def split: option.splits)

lemma admin_path_not_public:
  "public_routes (req\<lparr>pathname := ''/api/admin/'' @ rest\<rparr>) = None"
  by (simp add: public_routes_def extractIdFromPath_def match_id_def Let_def)

lemma upload_path_not_public:
  "public_routes (req\<lparr>pathname := ''/api/upload''\<rparr>) = None"
  by (simp add: public_routes_def extractIdFromPath_def match_id_def Let_def)

lemma protected_not_public:
  assumes "is_protected (pathname req)"
  shows "public_routes req = None" and "pathname req \<noteq> ''/api/login''"
proof -
  from assms consider rest where "pathname req = ''/api/admin/'' @ rest" | "pathname req = ''/api/upload''"
    by (auto simp: is_protected_def startsWith_def prefix_def)
  then show "public_routes req = None"
  proof cases
    case 1
    then have "req = req\<lparr>pathname := ''/api/admin/'' @ rest\<rparr>" by simp
    then show ?thesis using admin_path_not_public[where req = req and rest = rest] by simp
  next
    case 2
    then have "req = req\<lparr>pathname := ''/api/upload''\<rparr>" by simp
    then show ?thesis using upload_path_not_public[where req = req] by simp
  qed
  from assms show "pathname req \<noteq> ''/api/login''"
    by (auto simp: is_protected_def startsWith_def)
qed


lemma admin_routes_outcomes:
  assumes "admin_routes req = Some out"
  shows "(\<exists>h. out = Call h \<and> is_admin_call h)
       \<or> out = Respond (payloadTooLarge ''File too large. Maximum size: 10MB'')"
  using assms unfolding admin_routes_def Let_def
  by (auto split: if_splits)

lemma last_routes_outcomes:
  "\<exists>r. last_routes req now = Respond r \<and> (resp_status r = 200 \<or> resp_status r = 404)"
  by (simp add: last_routes_def success_def notFound_def error_def)

lemma public_header_independent:
  "public_routes (req\<lparr>h_authorization := a\<rparr>) = public_routes req"
  by (simp add: public_routes_def)

lemma getClientIP_header_independent:
  "getClientIP (req\<lparr>h_authorization := a\<rparr>) = getClientIP req"
  by (simp add: getClientIP_def split: option.splits)

lemma checkRequestBodySize_header_independent:
  "checkRequestBodySize (req\<lparr>h_authorization := a\<rparr>) n = checkRequestBodySize req n"
  by (simp add: checkRequestBodySize_def split: option.splits)

lemma last_routes_header_independent:
  "last_routes (req\<lparr>h_authorization := a\<rparr>) now = last_routes req now"
  by (simp add: last_routes_def)

lemma handleRequest_header_independent:
  assumes "\<not> is_protected (pathname req)"
  shows "handleRequest X e now store (req\<lparr>h_authorization := a\<rparr>) = handleRequest X e now store req"
  using assms
  by (simp add: handleRequest_def public_header_independent getClientIP_header_independent
      checkRequestBodySize_header_independent last_routes_header_independent
      split: prod.splits option.splits)

text \<open>
  Claim C1. For a request whose path starts with \<open>/api/admin/\<close> or is \<open>/api/upload\<close>
  the gate comes before every handler. With a valid token the router either calls one of
  the admin handlers or answers itself with 413, 200 or 404, never with 401, and leaves
  the rate-limit store alone. Without one (no header, a malformed header, a token that
  \<open>jose\<close> rejects for its signature, its expiry or its form, or a payload without the
  required claims) the result is a 401 \<open>UNAUTHORIZED\<close> envelope, no handler is called and
  the store is unchanged. For every other path the result does not depend on the
  \<open>Authorization\<close> header at all.
\<close>

theorem authorization_gate:
  "(is_protected (pathname req) \<and> carries_valid_token X e now req \<longrightarrow>
      snd (handleRequest X e now store req) = store \<and>
      ((\<exists>h. fst (handleRequest X e now store req) = Call h \<and> is_admin_call h) \<or>
       (\<exists>r. fst (handleRequest X e now store req) = Respond r \<and>
            (resp_status r = 413 \<or> resp_status r = 200 \<or> resp_status r = 404))) \<and>
      (\<forall>r. fst (handleRequest X e now store req) = Respond r \<longrightarrow> resp_status r \<noteq> 401))
   \<and> (is_protected (pathname req) \<and> \<not> carries_valid_token X e now req \<longrightarrow>
      (\<exists>m. handleRequest X e now store req = (Respond (unauthorized m), store) \<and>
           resp_status (unauthorized m) = 401 \<and>
           resp_body (unauthorized m) = Failure ''UNAUTHORIZED'' m))
   \<and> (\<not> is_protected (pathname req) \<longrightarrow>
      (\<forall>a. handleRequest X e now store (req\<lparr>h_authorization := a\<rparr>)
            = handleRequest X e now store req))"
proof -
  have valid: "snd (handleRequest X e now store req) = store \<and>
      ((\<exists>h. fst (handleRequest X e now store req) = Call h \<and> is_admin_call h) \<or>
       (\<exists>r. fst (handleRequest X e now store req) = Respond r \<and>
            (resp_status r = 413 \<or> resp_status r = 200 \<or> resp_status r = 404)))"
    if p: "is_protected (pathname req)" and v: "carries_valid_token X e now req"
  proof -
    from v authMiddleware_success_iff[of X e now req]
    obtain user where au: "authMiddleware X e now req = Inr user"
      by (auto simp: isAuthSuccess_def split: sum.splits)
    show ?thesis
    proof (cases "admin_routes req")
      case None
      with p au protected_not_public[OF p] last_routes_outcomes[of req now]
      show ?thesis by (auto simp: handleRequest_def)
    next
      case (Some out)
      with p au protected_not_public[OF p] admin_routes_outcomes[OF Some]
      show ?thesis by (auto simp: handleRequest_def payloadTooLarge_def error_def)
    qed
  qed
  have invalid: "\<exists>m. handleRequest X e now store req = (Respond (unauthorized m), store) \<and>
           resp_status (unauthorized m) = 401 \<and>
           resp_body (unauthorized m) = Failure ''UNAUTHORIZED'' m"
    if p: "is_protected (pathname req)" and v: "\<not> carries_valid_token X e now req"
    using authMiddleware_failure[OF v] protected_not_public[OF p] p
    by (auto simp: handleRequest_def unauthorized_status unauthorized_body)
  from valid invalid handleRequest_header_independent[of req X e now store]
  show ?thesis by fastforce
qed


lemma sample_valid:
  "carries_valid_token sample_externals sample_env 0 (sample_request\<lparr>h_authorization := Some ''Bearer t0''\<rparr>)"
  by (simp add: carries_valid_token_def sample_request_def extractBearerToken_def startsWith_def
      trim_def is_js_space_def sample_externals_def sample_env_def has_required_claims_def)

lemma sample_invalid:
  "\<not> carries_valid_token sample_externals sample_env 0 sample_request"
  by (simp add: carries_valid_token_def sample_request_def extractBearerToken_def)

lemma sample_protected: "is_protected (pathname sample_request)"
  by (simp add: is_protected_def sample_request_def startsWith_def)

lemma sample_admin_route: "admin_routes (sample_request\<lparr>h_authorization := a\<rparr>) = Some (Call HandleGetAdminArticles)"
  by (simp add: admin_routes_def sample_request_def)

theorem authorization_gate_witness:
  "is_protected (pathname sample_request)
   \<and> carries_valid_token sample_externals sample_env 0
        (sample_request\<lparr>h_authorization := Some ''Bearer t0''\<rparr>)
   \<and> handleRequest sample_externals sample_env 0 Map.empty
        (sample_request\<lparr>h_authorization := Some ''Bearer t0''\<rparr>)
      = (Call HandleGetAdminArticles, Map.empty)
   \<and> \<not> carries_valid_token sample_externals sample_env 0 sample_request
   \<and> handleRequest sample_externals sample_env 0 Map.empty sample_request
      = (Respond (unauthorized ''Missing or invalid authorization header''), Map.empty)
   \<and> \<not> is_protected (pathname sample_public)
   \<and> handleRequest sample_externals sample_env 0 Map.empty
        (sample_public\<lparr>h_authorization := Some ''Bearer forged''\<rparr>)
      = handleRequest sample_externals sample_env 0 Map.empty sample_public"
proof -
  let ?v = "sample_request\<lparr>h_authorization := Some ''Bearer t0''\<rparr>"
  have pv: "is_protected (pathname ?v)" using sample_protected by simp
  have np: "\<not> is_protected (pathname sample_public)"
    by (simp add: is_protected_def sample_public_def startsWith_def)
  note g1 = authorization_gate[where req = ?v and X = sample_externals and e = sample_env
      and now = 0 and store = Map.empty]
  note g2 = authorization_gate[where req = sample_request and X = sample_externals
      and e = sample_env and now = 0 and store = Map.empty]
  note g3 = authorization_gate[where req = sample_public and X = sample_externals
      and e = sample_env and now = 0 and store = Map.empty]
  have c1: "handleRequest sample_externals sample_env 0 Map.empty ?v
      = (Call HandleGetAdminArticles, Map.empty)"
    using g1 pv sample_valid protected_not_public[OF pv] sample_admin_route[of "Some ''Bearer t0''"]
      authMiddleware_success_iff[of sample_externals sample_env 0 ?v]
    by (auto simp: handleRequest_def isAuthSuccess_def split: sum.splits)
  have c2: "handleRequest sample_externals sample_env 0 Map.empty sample_request
      = (Respond (unauthorized ''Missing or invalid authorization header''), Map.empty)"
    using g2 sample_protected sample_invalid
    by (auto simp: authMiddleware_def sample_request_def extractBearerToken_def
        handleRequest_def public_routes_def extractIdFromPath_def match_id_def
        is_protected_def startsWith_def)
  have c3: "handleRequest sample_externals sample_env 0 Map.empty
        (sample_public\<lparr>h_authorization := Some ''Bearer forged''\<rparr>)
      = handleRequest sample_externals sample_env 0 Map.empty sample_public"
    using g3 np by blast
  from sample_protected sample_valid c1 sample_invalid c2 np c3 show ?thesis by blast
qed

section \<open>Properties of the handlers\<close>

lemma find_None_iff2: "(find P xs = None) = (\<not> (\<exists>x\<in>set xs. P x))"
  by (auto simp: find_None_iff)

lemma conflict_status: "resp_status (conflict m) = 409" "resp_body (conflict m) = Failure ''CONFLICT'' m"
  by (simp_all add: conflict_def error_def)

lemma notFound_status: "resp_status (notFound m) = 404" "resp_body (notFound m) = Failure ''NOT_FOUND'' m"
  by (simp_all add: notFound_def error_def)

lemma success_status: "resp_status (success d st) = st" "resp_body (success d st) = Success d"
  by (simp_all add: success_def)
text \<open>
  Claim C3. For a category that exists: when at least one article has its id as
  \<open>category_id\<close>, \<open>handleDeleteCategory\<close> answers 409 \<open>CONFLICT\<close>, the message carries
  the number of those articles in decimal, and the database is unchanged (the row is still
  there and no statement was issued); when no article refers to it, the row is deleted
  and nothing else changes. For an id with no category the answer is 404.
\<close>

theorem delete_category_guard:
  "((\<exists>c\<in>set (categories db). cat_id c = i) \<and> 0 < referencing_articles db i \<longrightarrow>
      handleDeleteCategory db i =
        (conflict (''Cannot delete category: '' @ string_of_int (int (referencing_articles db i))
                   @ '' article(s) are using this category''), db)
      \<and> resp_status (fst (handleDeleteCategory db i)) = 409
      \<and> (\<exists>m. resp_body (fst (handleDeleteCategory db i)) = Failure ''CONFLICT'' m))
   \<and> ((\<exists>c\<in>set (categories db). cat_id c = i) \<and> referencing_articles db i = 0 \<longrightarrow>
      handleDeleteCategory db i =
        (success (PDeleted True) 200,
         db\<lparr>categories := filter (\<lambda>c. cat_id c \<noteq> i) (categories db)\<rparr>)
      \<and> \<not> (\<exists>c\<in>set (categories (snd (handleDeleteCategory db i))). cat_id c = i))
   \<and> (\<not> (\<exists>c\<in>set (categories db). cat_id c = i) \<longrightarrow>
      handleDeleteCategory db i = (notFound ''Category not found'', db)
      \<and> resp_status (fst (handleDeleteCategory db i)) = 404)"
proof (cases "find (\<lambda>c. cat_id c = i) (categories db)")
  case None
  then have "\<not> (\<exists>c\<in>set (categories db). cat_id c = i)"
    by (simp add: find_None_iff2)
  with None show ?thesis
    by (simp add: handleDeleteCategory_def notFound_status)
next
  case (Some existing)
  then have ex: "\<exists>c\<in>set (categories db). cat_id c = i"
    using find_None_iff2[of "\<lambda>c. cat_id c = i" "categories db"] by simp
  show ?thesis
  proof (cases "referencing_articles db i = 0")
    case True
    with Some ex show ?thesis
      by (simp add: handleDeleteCategory_def referencing_articles_def Let_def)
  next
    case False
    with Some ex show ?thesis
      by (simp add: handleDeleteCategory_def referencing_articles_def Let_def conflict_status)
  qed
qed

lemma string_of_int_2: "string_of_int 2 = ''2''"
  by code_simp

theorem delete_category_guard_witness:
  "(\<exists>c\<in>set (categories sample_db). cat_id c = 1) \<and> 0 < referencing_articles sample_db 1
   \<and> handleDeleteCategory sample_db 1 =
       (conflict ''Cannot delete category: 2 article(s) are using this category'', sample_db)
   \<and> (\<exists>c\<in>set (categories sample_db). cat_id c = 2) \<and> referencing_articles sample_db 2 = 0
   \<and> categories (snd (handleDeleteCategory sample_db 2)) = [sample_category1]
   \<and> \<not> (\<exists>c\<in>set (categories sample_db). cat_id c = 9)
   \<and> handleDeleteCategory sample_db 9 = (notFound ''Category not found'', sample_db)"
proof -
  have h1: "(\<exists>c\<in>set (categories sample_db). cat_id c = 1) \<and> 0 < referencing_articles sample_db 1"
    by (simp add: sample_db_def sample_category1_def referencing_articles_def
        sample_article1_def sample_article2_def sample_article3_def)
  have n1: "int (referencing_articles sample_db 1) = 2"
    by (simp add: sample_db_def referencing_articles_def
        sample_article1_def sample_article2_def sample_article3_def)
  have h2: "(\<exists>c\<in>set (categories sample_db). cat_id c = 2) \<and> referencing_articles sample_db 2 = 0"
    by (simp add: sample_db_def sample_category2_def referencing_articles_def
        sample_article1_def sample_article2_def sample_article3_def)
  have h3: "\<not> (\<exists>c\<in>set (categories sample_db). cat_id c = 9)"
    by (simp add: sample_db_def sample_category1_def sample_category2_def)
  have f: "filter (\<lambda>c. cat_id c \<noteq> 2) (categories sample_db) = [sample_category1]"
    by (simp add: sample_db_def sample_category1_def sample_category2_def)
  from delete_category_guard[of sample_db 1] delete_category_guard[of sample_db 2]
    delete_category_guard[of sample_db 9] h1 h2 h3
  show ?thesis
    unfolding n1 string_of_int_2 by (simp add: f)
qed

lemma find_map_preserving:
  assumes "\<And>x. P (f x) = P x"
  shows "find P (map f xs) = map_option f (find P xs)"
  using assms by (induction xs) auto

lemma find_after_increment:
  "find (\<lambda>a. art_id a = i \<and> status a = Published) (increment_view_count i rows) =
   map_option (\<lambda>a. a\<lparr>view_count := view_count a + 1\<rparr>)
     (find (\<lambda>a. art_id a = i \<and> status a = Published) rows)"
  by (induction rows) (auto simp: increment_view_count_def)

lemma increment_noop:
  assumes "\<not> (\<exists>a\<in>set rows. is_published_with_id i a)"
  shows "increment_view_count i rows = rows"
  using assms by (induction rows) (auto simp: increment_view_count_def is_published_with_id_def)

lemma db_articles_same: "db\<lparr>articles := articles db\<rparr> = db"
  by simp

lemma at_most_one_with_id:
  assumes "distinct (map art_id rows)"
  shows "length (filter (is_published_with_id i) rows) \<le> 1"
  using assms
proof (induction rows)
  case Nil
  then show ?case by simp
next
  case (Cons a rows)
  from Cons have ih: "length (filter (is_published_with_id i) rows) \<le> 1"
    by simp
  show ?case
  proof (cases "is_published_with_id i a")
    case True
    have "\<forall>x\<in>set rows. art_id x \<noteq> art_id a"
      using Cons.prems by (auto simp: image_iff)
    with True have "\<forall>x\<in>set rows. \<not> is_published_with_id i x"
      by (simp add: is_published_with_id_def)
    then have "filter (is_published_with_id i) rows = []"
      by (simp add: filter_empty_conv)
    with True show ?thesis by simp
  next
    case False
    with ih show ?thesis by simp
  qed
qed

lemma detail_not_found:
  assumes nex: "\<not> (\<exists>a\<in>set (articles db). is_published_with_id i a)"
  shows "handleGetArticle db i = (notFound ''Article not found'', db)"
proof -
  from nex have f: "find (\<lambda>a. art_id a = i \<and> status a = Published) (articles db) = None"
    by (auto simp: find_None_iff2 is_published_with_id_def)
  from increment_noop[OF nex] f show ?thesis
    by (simp add: handleGetArticle_def Let_def find_after_increment)
qed

text \<open>
  Claim C6. \<open>handleGetArticle\<close> changes no table but \<open>articles\<close>, and there it adds
  exactly 1 to \<open>view_count\<close> of the rows that have the requested id and are published
  (at most one row, \<open>id\<close> being the primary key) and leaves every other row as it
  was. If such a row exists the answer is 200 with that article and its new count. If
  none exists, whether the id is absent or belongs to a draft, nothing is modified and the
  answer is the same 404 \<open>NOT_FOUND\<close> envelope with no article data.
\<close>

theorem public_detail_view_count:
  "length (articles (snd (handleGetArticle db i))) = length (articles db)
   \<and> (\<forall>k < length (articles db).
         (is_published_with_id i (articles db ! k) \<longrightarrow>
            articles (snd (handleGetArticle db i)) ! k
              = (articles db ! k)\<lparr>view_count := view_count (articles db ! k) + 1\<rparr>)
       \<and> (\<not> is_published_with_id i (articles db ! k) \<longrightarrow>
            articles (snd (handleGetArticle db i)) ! k = articles db ! k))
   \<and> (primary_keys db \<longrightarrow> length (filter (is_published_with_id i) (articles db)) \<le> 1)
   \<and> snd (handleGetArticle db i) = db\<lparr>articles := articles (snd (handleGetArticle db i))\<rparr>
   \<and> ((\<exists>a\<in>set (articles db). is_published_with_id i a) \<longrightarrow>
        (\<exists>d a. fst (handleGetArticle db i) = success (PArticleDetail d) 200
              \<and> a \<in> set (articles db) \<and> is_published_with_id i a
              \<and> article_cols.truncate d
                  = article_cols.truncate (a\<lparr>view_count := view_count a + 1\<rparr>)))
   \<and> (\<not> (\<exists>a\<in>set (articles db). is_published_with_id i a) \<longrightarrow>
        handleGetArticle db i = (notFound ''Article not found'', db)
        \<and> resp_status (fst (handleGetArticle db i)) = 404
        \<and> resp_body (fst (handleGetArticle db i)) = Failure ''NOT_FOUND'' ''Article not found''
        \<and> (\<forall>db' i'. \<not> (\<exists>a\<in>set (articles db'). is_published_with_id i' a) \<longrightarrow>
              fst (handleGetArticle db' i') = fst (handleGetArticle db i)))"
proof -
  let ?P = "\<lambda>a. art_id a = i \<and> status a = Published"
  have arts: "articles (snd (handleGetArticle db i)) = increment_view_count i (articles db)"
    by (simp add: handleGetArticle_def Let_def find_after_increment split: option.splits)
  have frame: "snd (handleGetArticle db i) = db\<lparr>articles := increment_view_count i (articles db)\<rparr>"
    by (simp add: handleGetArticle_def Let_def find_after_increment split: option.splits)
  have c1: "length (articles (snd (handleGetArticle db i))) = length (articles db)"
    unfolding arts by (simp add: increment_view_count_def)
  have c2: "\<forall>k < length (articles db).
         (is_published_with_id i (articles db ! k) \<longrightarrow>
            articles (snd (handleGetArticle db i)) ! k
              = (articles db ! k)\<lparr>view_count := view_count (articles db ! k) + 1\<rparr>)
       \<and> (\<not> is_published_with_id i (articles db ! k) \<longrightarrow>
            articles (snd (handleGetArticle db i)) ! k = articles db ! k)"
    unfolding arts by (simp add: increment_view_count_def is_published_with_id_def)
  have c3: "primary_keys db \<longrightarrow> length (filter (is_published_with_id i) (articles db)) \<le> 1"
    using at_most_one_with_id[of "articles db" i] by (simp add: primary_keys_def)
  have c4: "snd (handleGetArticle db i) = db\<lparr>articles := articles (snd (handleGetArticle db i))\<rparr>"
    unfolding arts using frame by simp
  have c5: "\<exists>d a. fst (handleGetArticle db i) = success (PArticleDetail d) 200
              \<and> a \<in> set (articles db) \<and> is_published_with_id i a
              \<and> article_cols.truncate d
                  = article_cols.truncate (a\<lparr>view_count := view_count a + 1\<rparr>)"
    if ex: "\<exists>a\<in>set (articles db). is_published_with_id i a"
  proof -
    from ex have "find ?P (articles db) \<noteq> None"
      by (auto simp: find_None_iff2 is_published_with_id_def)
    then obtain a where a: "find ?P (articles db) = Some a" by auto
    then have am: "a \<in> set (articles db)" and ap: "is_published_with_id i a"
      by (auto simp: find_Some_iff is_published_with_id_def)
    show ?thesis
      using a am ap
      by (auto simp: handleGetArticle_def Let_def find_after_increment article_cols.defs
          article_view.defs article_detail.defs intro!: exI[of _ a])
  qed
  have c6: "handleGetArticle db i = (notFound ''Article not found'', db)
        \<and> resp_status (fst (handleGetArticle db i)) = 404
        \<and> resp_body (fst (handleGetArticle db i)) = Failure ''NOT_FOUND'' ''Article not found''
        \<and> (\<forall>db' i'. \<not> (\<exists>a\<in>set (articles db'). is_published_with_id i' a) \<longrightarrow>
              fst (handleGetArticle db' i') = fst (handleGetArticle db i))"
    if nex: "\<not> (\<exists>a\<in>set (articles db). is_published_with_id i a)"
    using detail_not_found[OF nex] detail_not_found by (simp add: notFound_status)
  from c1 c2 c3 c4 c5 c6 show ?thesis by blast
qed

theorem public_detail_view_count_witness:
  "(\<exists>a\<in>set (articles sample_db). is_published_with_id 1 a)
   \<and> primary_keys sample_db
   \<and> (\<exists>d. fst (handleGetArticle sample_db 1) = success (PArticleDetail d) 200
          \<and> article_cols.truncate d = article_cols.truncate (sample_article1\<lparr>view_count := 8\<rparr>))
   \<and> articles (snd (handleGetArticle sample_db 1))
        = [sample_article1\<lparr>view_count := 8\<rparr>, sample_article2, sample_article3]
   \<and> \<not> (\<exists>a\<in>set (articles sample_db). is_published_with_id 2 a)
   \<and> handleGetArticle sample_db 2 = (notFound ''Article not found'', sample_db)
   \<and> \<not> (\<exists>a\<in>set (articles sample_db). is_published_with_id 99 a)
   \<and> handleGetArticle sample_db 99 = (notFound ''Article not found'', sample_db)"
proof -
  have arts: "articles sample_db = [sample_article1, sample_article2, sample_article3]"
    by (simp add: sample_db_def)
  have p1: "is_published_with_id 1 sample_article1" "\<not> is_published_with_id 1 sample_article2"
    "\<not> is_published_with_id 1 sample_article3"
    by (simp_all add: is_published_with_id_def sample_article1_def sample_article2_def
        sample_article3_def)
  have p2: "\<not> is_published_with_id 2 sample_article1" "\<not> is_published_with_id 2 sample_article2"
    "\<not> is_published_with_id 2 sample_article3"
    by (simp_all add: is_published_with_id_def sample_article1_def sample_article2_def
        sample_article3_def)
  have p9: "\<not> is_published_with_id 99 sample_article1" "\<not> is_published_with_id 99 sample_article2"
    "\<not> is_published_with_id 99 sample_article3"
    by (simp_all add: is_published_with_id_def sample_article1_def sample_article2_def
        sample_article3_def)
  have pk: "primary_keys sample_db"
    by (simp add: primary_keys_def sample_db_def sample_article1_def sample_article2_def
        sample_article3_def sample_category1_def sample_category2_def)
  have v: "view_count sample_article1 + 1 = 8"
    by (simp add: sample_article1_def)
  note t1 = public_detail_view_count[of sample_db 1]
  note t2 = public_detail_view_count[of sample_db 2]
  note t9 = public_detail_view_count[of sample_db 99]
  have e1: "\<exists>a\<in>set (articles sample_db). is_published_with_id 1 a"
    using p1 by (simp add: arts)
  have d1: "\<exists>d. fst (handleGetArticle sample_db 1) = success (PArticleDetail d) 200
          \<and> article_cols.truncate d = article_cols.truncate (sample_article1\<lparr>view_count := 8\<rparr>)"
    using t1 e1 p1 v by (auto simp: arts)
  have a1: "articles (snd (handleGetArticle sample_db 1))
        = [sample_article1\<lparr>view_count := 8\<rparr>, sample_article2, sample_article3]"
  proof (rule nth_equalityI)
    show "length (articles (snd (handleGetArticle sample_db 1)))
          = length [sample_article1\<lparr>view_count := 8\<rparr>, sample_article2, sample_article3]"
      using t1 by (simp add: arts)
  next
    fix k assume "k < length (articles (snd (handleGetArticle sample_db 1)))"
    with t1 have k: "k < 3" by (simp add: arts)
    then consider "k = 0" | "k = 1" | "k = 2" by linarith
    then show "articles (snd (handleGetArticle sample_db 1)) ! k
          = [sample_article1\<lparr>view_count := 8\<rparr>, sample_article2, sample_article3] ! k"
      using t1 p1 v by cases (auto simp: arts)
  qed
  have n2: "\<not> (\<exists>a\<in>set (articles sample_db). is_published_with_id 2 a)"
    using p2 by (simp add: arts)
  have n9: "\<not> (\<exists>a\<in>set (articles sample_db). is_published_with_id 99 a)"
    using p9 by (simp add: arts)
  from e1 pk d1 a1 n2 n9 t2 t9 show ?thesis by blast
qed

lemma like_action_values: "like_action req = ''like'' \<or> like_action req = ''unlike''"
  by (simp add: like_action_def split: option.splits)

lemma like_action_unlike_iff:
  "(like_action req = ''unlike'') =
     (\<exists>kvs. json_body req = Some (JObj kvs) \<and> map_of kvs ''action'' = Some (JStr ''unlike''))"
proof (cases "json_body req")
  case None
  then show ?thesis by (simp add: like_action_def)
next
  case (Some body)
  then show ?thesis by (cases body) (auto simp: like_action_def)
qed

lemma like_never_400: "resp_status (fst (handleLikeArticle db req i)) \<noteq> 400"
  by (simp add: handleLikeArticle_def Let_def success_status notFound_status split: option.splits)

text \<open>
  Claim C9. For a like request against an existing published article, the action is
  \<open>unlike\<close> exactly when the body is well-formed JSON, an object, whose \<open>action\<close> is
  the string \<open>unlike\<close>. In every other case (no body, malformed JSON, another action,
  no action) the request counts as a like: \<open>like_count\<close> of the article grows by 1 and
  the answer is 200. An unlike sets the count to
  \<open>max(0, like_count - 1)\<close>, never below zero. No like request is answered with 400.
\<close>

theorem like_is_the_default_action:
  assumes "find (\<lambda>a. art_id a = i \<and> status a = Published) (articles db) = Some a"
  shows "(like_action req = ''unlike'') =
           (\<exists>kvs. json_body req = Some (JObj kvs) \<and> map_of kvs ''action'' = Some (JStr ''unlike''))
       \<and> (like_action req \<noteq> ''unlike'' \<longrightarrow>
            handleLikeArticle db req i =
              (success (PLike True (like_count a + 1)) 200,
               db\<lparr>articles := map (\<lambda>b. if art_id b = i then b\<lparr>like_count := like_count b + 1\<rparr>
                                        else b) (articles db)\<rparr>))
       \<and> (like_action req = ''unlike'' \<longrightarrow>
            handleLikeArticle db req i =
              (success (PLike False (max 0 (like_count a - 1))) 200,
               db\<lparr>articles := map (\<lambda>b. if art_id b = i
                                        then b\<lparr>like_count := max 0 (like_count a - 1)\<rparr>
                                        else b) (articles db)\<rparr>)
            \<and> 0 \<le> max 0 (like_count a - 1))
       \<and> (json_body req = None \<longrightarrow> like_action req = ''like'')
       \<and> resp_status (fst (handleLikeArticle db req i)) = 200
       \<and> (\<forall>db' req' i'. resp_status (fst (handleLikeArticle db' req' i')) \<noteq> 400)"
proof -
  from like_action_values[of req] assms
  have body: "(like_action req \<noteq> ''unlike'' \<longrightarrow>
            handleLikeArticle db req i =
              (success (PLike True (like_count a + 1)) 200,
               db\<lparr>articles := map (\<lambda>b. if art_id b = i then b\<lparr>like_count := like_count b + 1\<rparr>
                                        else b) (articles db)\<rparr>))
       \<and> (like_action req = ''unlike'' \<longrightarrow>
            handleLikeArticle db req i =
              (success (PLike False (max 0 (like_count a - 1))) 200,
               db\<lparr>articles := map (\<lambda>b. if art_id b = i
                                        then b\<lparr>like_count := max 0 (like_count a - 1)\<rparr>
                                        else b) (articles db)\<rparr>))"
    by (auto simp: handleLikeArticle_def Let_def)
  have st: "resp_status (fst (handleLikeArticle db req i)) = 200"
    using assms by (simp add: handleLikeArticle_def Let_def success_status)
  have none: "json_body req = None \<longrightarrow> like_action req = ''like''"
    by (simp add: like_action_def)
  from like_action_unlike_iff[of req] body st none like_never_400 show ?thesis by simp
qed

theorem like_is_the_default_action_witness:
  "find (\<lambda>a. art_id a = 3 \<and> status a = Published) (articles sample_db) = Some sample_article3
   \<and> fst (handleLikeArticle sample_db sample_like 3) = success (PLike True 3) 200
   \<and> fst (handleLikeArticle sample_db
             (sample_like\<lparr>json_body := Some (JObj [(''action'', JStr ''dislike'')])\<rparr>) 3)
       = success (PLike True 3) 200
   \<and> fst (handleLikeArticle sample_db
             (sample_like\<lparr>json_body := Some (JObj [(''action'', JStr ''unlike'')])\<rparr>) 3)
       = success (PLike False 1) 200"
proof -
  have f: "find (\<lambda>a. art_id a = 3 \<and> status a = Published) (articles sample_db) = Some sample_article3"
    by (simp add: sample_db_def sample_article1_def sample_article2_def sample_article3_def)
  have l: "like_count sample_article3 = 2" by (simp add: sample_article3_def)
  have a1: "like_action sample_like \<noteq> ''unlike''"
    by (simp add: like_action_def sample_like_def sample_request_def)
  have a2: "like_action (sample_like\<lparr>json_body := Some (JObj [(''action'', JStr ''dislike'')])\<rparr>)
            \<noteq> ''unlike''"
    by (simp add: like_action_def)
  have a3: "like_action (sample_like\<lparr>json_body := Some (JObj [(''action'', JStr ''unlike'')])\<rparr>)
            = ''unlike''"
    by (simp add: like_action_def)
  from like_is_the_default_action[OF f, of sample_like]
    like_is_the_default_action[OF f,
      of "sample_like\<lparr>json_body := Some (JObj [(''action'', JStr ''dislike'')])\<rparr>"]
    like_is_the_default_action[OF f,
      of "sample_like\<lparr>json_body := Some (JObj [(''action'', JStr ''unlike'')])\<rparr>"]
    f a1 a2 a3 l
  show ?thesis by simp
qed

section \<open>Properties of the upload path\<close>

lemma badRequest_status: "resp_status (badRequest m) = 400" "resp_body (badRequest m) = Failure ''BAD_REQUEST'' m"
  by (simp_all add: badRequest_def error_def)

lemma payloadTooLarge_status:
  "resp_status (payloadTooLarge m) = 413" "resp_body (payloadTooLarge m) = Failure ''PAYLOAD_TOO_LARGE'' m"
  by (simp_all add: payloadTooLarge_def error_def)

lemma too_large_message_text: "too_large_message = ''File too large. Maximum size: 10MB''"
  by code_simp

lemma invalid_type_message_text:
  "invalid_type_message =
     ''Invalid file type. Allowed types: image/jpeg, image/png, image/gif, image/webp, image/svg+xml''"
  by code_simp

lemma invalid_type_message_mentions: "js_includes invalid_type_message ''Invalid file type''"
  unfolding invalid_type_message_text by simp

lemma too_large_message_mentions: "js_includes too_large_message ''10MB''"
  unfolding too_large_message_text by code_simp

lemma pdf_not_allowed: "\<not> isValidImageType ''application/pdf''"
  by (simp add: isValidImageType_def ALLOWED_MIME_TYPES_def)

lemma png_allowed: "isValidImageType ''image/png''"
  by (simp add: isValidImageType_def ALLOWED_MIME_TYPES_def)

lemma handleUpload_file:
  assumes "req_method req = ''POST''" "uploaded_file req = Some (ftype, bytes)"
  shows "handleUpload b now random req =
     (if \<not> isValidImageType ftype then (badRequest invalid_type_message, b)
      else if \<not> isValidFileSize (int (length bytes)) then (badRequest too_large_message, b)
      else store_upload b ftype bytes now random)"
  using assms
  by (auto simp: handleUpload_def uploaded_file_def Let_def split: if_splits form_result.splits)

lemma upload_dispatch:
  assumes "pathname req = ''/api/upload''" "req_method req = ''POST''"
    "carries_valid_token X e now req"
  shows "fst (handleRequest X e now store req) =
     (if valid (checkRequestBodySize req MAX_UPLOAD_SIZE) then Call HandleUpload
      else Respond (payloadTooLarge ''File too large. Maximum size: 10MB''))"
proof -
  from assms(1) have p: "is_protected (pathname req)"
    by (simp add: is_protected_def)
  from assms(3) authMiddleware_success_iff[of X e now req]
  obtain user where au: "authMiddleware X e now req = Inr user"
    by (auto simp: isAuthSuccess_def split: sum.splits)
  have ar: "admin_routes req =
     (if \<not> valid (checkRequestBodySize req MAX_UPLOAD_SIZE)
      then Some (Respond (payloadTooLarge ''File too large. Maximum size: 10MB''))
      else Some (Call HandleUpload))"
    using assms(1,2) by (simp add: admin_routes_def)
  show ?thesis
    using p au ar protected_not_public[OF p] by (simp add: handleRequest_def)
qed

lemma content_length_check:
  "(h_content_length req = None \<longrightarrow> valid (checkRequestBodySize req m))
   \<and> (h_content_length req = Some cl \<and> cl \<noteq> [] \<and> parseInt10 cl = Num n \<longrightarrow>
        valid (checkRequestBodySize req m) = (n \<le> m))"
  by (simp add: checkRequestBodySize_def Let_def)

text \<open>
  Claim C7, as the code has it. An upload passes two checks. The dispatcher rejects a
  request whose \<open>Content-Length\<close> exceeds 10 MB with 413 \<open>PAYLOAD_TOO_LARGE\<close> before
  \<open>handleUpload\<close> runs, and calls the handler when the header is absent or at most
  10 MB. The handler checks the MIME type first: a type outside the allow-list
  (\<open>application/pdf\<close>, say) gets 400 \<open>BAD_REQUEST\<close> with the invalid-file-type message,
  whatever the size; a file of an allowed type with more than 10 MB gets 400
  \<open>BAD_REQUEST\<close> with \<open>File too large. Maximum size: 10MB\<close>; a file of exactly 10 MB
  and an allowed type is stored under the generated name and answered 201.
\<close>

theorem upload_validation_layers:
  assumes post: "req_method req = ''POST''"
      and upl: "uploaded_file req = Some (ftype, bytes)"
  shows "(\<not> isValidImageType ftype \<longrightarrow>
            handleUpload b now random req = (badRequest invalid_type_message, b)
            \<and> resp_status (badRequest invalid_type_message) = 400
            \<and> resp_body (badRequest invalid_type_message) = Failure ''BAD_REQUEST'' invalid_type_message
            \<and> js_includes invalid_type_message ''Invalid file type'')
       \<and> (isValidImageType ftype \<and> int (length bytes) > 10 * 1024 * 1024 \<longrightarrow>
            handleUpload b now random req = (badRequest too_large_message, b)
            \<and> resp_status (badRequest too_large_message) = 400
            \<and> too_large_message = ''File too large. Maximum size: 10MB'')
       \<and> (isValidImageType ftype \<and> int (length bytes) = 10 * 1024 * 1024 \<longrightarrow>
            handleUpload b now random req =
              (success (PUpload (''/uploads/'' @ generateUniqueFilename ftype now random)
                                (generateUniqueFilename ftype now random)) 201,
               b(generateUniqueFilename ftype now random \<mapsto> (bytes, ftype))))
       \<and> isValidImageType ftype
            = (ftype \<in> {''image/jpeg'', ''image/png'', ''image/gif'', ''image/webp'', ''image/svg+xml''})
       \<and> (pathname req = ''/api/upload'' \<and> carries_valid_token X e now req \<longrightarrow>
            (\<forall>cl n. h_content_length req = Some cl \<and> cl \<noteq> [] \<and> parseInt10 cl = Num n
                     \<and> n > 10 * 1024 * 1024 \<longrightarrow>
               fst (handleRequest X e now store req)
                 = Respond (payloadTooLarge ''File too large. Maximum size: 10MB'')
               \<and> resp_status (payloadTooLarge ''File too large. Maximum size: 10MB'') = 413)
          \<and> (h_content_length req = None
               \<or> (\<exists>cl n. h_content_length req = Some cl \<and> cl \<noteq> [] \<and> parseInt10 cl = Num n
                          \<and> n \<le> 10 * 1024 * 1024) \<longrightarrow>
               fst (handleRequest X e now store req) = Call HandleUpload))"
proof -
  note h = handleUpload_file[OF post upl, of b now random]
  have c1: "\<not> isValidImageType ftype \<longrightarrow>
            handleUpload b now random req = (badRequest invalid_type_message, b)
            \<and> resp_status (badRequest invalid_type_message) = 400
            \<and> resp_body (badRequest invalid_type_message) = Failure ''BAD_REQUEST'' invalid_type_message
            \<and> js_includes invalid_type_message ''Invalid file type''"
    using h invalid_type_message_mentions by (simp add: badRequest_status)
  have c2: "isValidImageType ftype \<and> int (length bytes) > 10 * 1024 * 1024 \<longrightarrow>
            handleUpload b now random req = (badRequest too_large_message, b)
            \<and> resp_status (badRequest too_large_message) = 400
            \<and> too_large_message = ''File too large. Maximum size: 10MB''"
    using h too_large_message_text
    by (simp add: badRequest_status isValidFileSize_def MAX_FILE_SIZE_def)
  have c3: "isValidImageType ftype \<and> int (length bytes) = 10 * 1024 * 1024 \<longrightarrow>
            handleUpload b now random req =
              (success (PUpload (''/uploads/'' @ generateUniqueFilename ftype now random)
                                (generateUniqueFilename ftype now random)) 201,
               b(generateUniqueFilename ftype now random \<mapsto> (bytes, ftype)))"
    using h by (simp add: isValidFileSize_def MAX_FILE_SIZE_def store_upload_def Let_def)
  have c4: "isValidImageType ftype
            = (ftype \<in> {''image/jpeg'', ''image/png'', ''image/gif'', ''image/webp'', ''image/svg+xml''})"
    by (simp add: isValidImageType_def ALLOWED_MIME_TYPES_def)
  have c5: "(\<forall>cl n. h_content_length req = Some cl \<and> cl \<noteq> [] \<and> parseInt10 cl = Num n
                     \<and> n > 10 * 1024 * 1024 \<longrightarrow>
               fst (handleRequest X e now store req)
                 = Respond (payloadTooLarge ''File too large. Maximum size: 10MB'')
               \<and> resp_status (payloadTooLarge ''File too large. Maximum size: 10MB'') = 413)
          \<and> (h_content_length req = None
               \<or> (\<exists>cl n. h_content_length req = Some cl \<and> cl \<noteq> [] \<and> parseInt10 cl = Num n
                          \<and> n \<le> 10 * 1024 * 1024) \<longrightarrow>
               fst (handleRequest X e now store req) = Call HandleUpload)"
    if u: "pathname req = ''/api/upload''" and v: "carries_valid_token X e now req"
    using upload_dispatch[OF u post v, of store] content_length_check[of req MAX_UPLOAD_SIZE]
    by (auto simp: MAX_UPLOAD_SIZE_def payloadTooLarge_status checkRequestBodySize_def Let_def)
  from c1 c2 c3 c4 c5 show ?thesis by blast
qed

lemma parse_11mb: "parseInt10 ''11534336'' = Num 11534336"
  by (simp add: parseInt10_def trimStart_def is_js_space_def parse_digits_def is_digit_of_def
      digit_value_def digits_value_def Let_def)

lemma sample_upload_token:
  "carries_valid_token sample_externals sample_env 0 (sample_upload\<lparr>h_content_length := c, body_bytes := bs\<rparr>)"
  by (simp add: carries_valid_token_def sample_upload_def extractBearerToken_def startsWith_def
      trim_def is_js_space_def sample_externals_def sample_env_def has_required_claims_def)

lemma sample_upload_file:
  "uploaded_file (sample_upload\<lparr>h_content_type := Some ''image/png'', h_content_length := c, body_bytes := bs\<rparr>)
     = Some (''image/png'', bs)"
  by (simp add: uploaded_file_def sample_upload_def split_first_def trim_def is_js_space_def)

lemma sample_pdf_file:
  "uploaded_file (sample_upload\<lparr>h_content_type := Some ''application/pdf'', body_bytes := bs\<rparr>)
     = Some (''application/pdf'', bs)"
  by (simp add: uploaded_file_def sample_upload_def split_first_def trim_def is_js_space_def)

lemma no_limit_in_type_message: "\<not> js_includes invalid_type_message ''10MB''"
  unfolding invalid_type_message_text by code_simp

text \<open>
  Claim C7 as stated fails: an 11 MB PNG sent with its \<open>Content-Length\<close> is answered
  413 \<open>PAYLOAD_TOO_LARGE\<close> by the dispatcher, not 400; and an 11 MB file of a type that is
  not allowed gets the invalid-file-type message, which does not mention the limit.
\<close>

theorem upload_size_status_counterexample:
  "req_method sample_big_upload = ''POST'' \<and> pathname sample_big_upload = ''/api/upload''
   \<and> carries_valid_token sample_externals sample_env 0 sample_big_upload
   \<and> uploaded_file sample_big_upload = Some (''image/png'', body_11mb)
   \<and> int (length body_11mb) = 11 * 1024 * 1024
   \<and> (\<exists>r. fst (handleRequest sample_externals sample_env 0 Map.empty sample_big_upload) = Respond r
          \<and> resp_status r = 413 \<and> resp_status r \<noteq> 400
          \<and> resp_body r = Failure ''PAYLOAD_TOO_LARGE'' ''File too large. Maximum size: 10MB'')
   \<and> (\<exists>r. fst (handleUpload Map.empty 0 ''00''
                 (sample_upload\<lparr>h_content_type := Some ''application/pdf'', body_bytes := body_11mb\<rparr>))
            = r
          \<and> resp_status r = 400
          \<and> resp_body r = Failure ''BAD_REQUEST'' invalid_type_message
          \<and> \<not> js_includes invalid_type_message ''10MB'')"
proof -
  have big: "sample_big_upload =
      sample_upload\<lparr>h_content_type := Some ''image/png'', h_content_length := Some ''11534336'',
                     body_bytes := body_11mb\<rparr>"
    by (simp add: sample_big_upload_def sample_upload_def)
  have m: "req_method sample_big_upload = ''POST''" and p: "pathname sample_big_upload = ''/api/upload''"
    and cl: "h_content_length sample_big_upload = Some ''11534336''"
    by (simp_all add: sample_big_upload_def sample_upload_def)
  have v: "carries_valid_token sample_externals sample_env 0 sample_big_upload"
    using sample_upload_token[where c = "Some ''11534336''" and bs = body_11mb] by (simp add: sample_big_upload_def)
  have f: "uploaded_file sample_big_upload = Some (''image/png'', body_11mb)"
    unfolding big by (rule sample_upload_file)
  have l: "int (length body_11mb) = 11 * 1024 * 1024"
    by (simp add: body_11mb_def)
  have nv: "\<not> valid (checkRequestBodySize sample_big_upload MAX_UPLOAD_SIZE)"
    by (simp add: checkRequestBodySize_def cl parse_11mb MAX_UPLOAD_SIZE_def)
  have d: "fst (handleRequest sample_externals sample_env 0 Map.empty sample_big_upload)
           = Respond (payloadTooLarge ''File too large. Maximum size: 10MB'')"
    using upload_dispatch[OF p m v, of Map.empty] nv by simp
  have pm: "req_method (sample_upload\<lparr>h_content_type := Some ''application/pdf'', body_bytes := body_11mb\<rparr>) = ''POST''"
    by (simp add: sample_upload_def)
  have h: "fst (handleUpload Map.empty 0 ''00''
                 (sample_upload\<lparr>h_content_type := Some ''application/pdf'', body_bytes := body_11mb\<rparr>))
           = badRequest invalid_type_message"
    using handleUpload_file[OF pm sample_pdf_file, where b = Map.empty and now = 0
      and random = "''00''"] pdf_not_allowed by simp
  from m p v f l d h no_limit_in_type_message show ?thesis
    by (simp add: payloadTooLarge_status badRequest_status)
qed

theorem upload_validation_layers_witness:
  "fst (handleUpload Map.empty 0 ''00''
          (sample_upload\<lparr>h_content_type := Some ''application/pdf'', body_bytes := body_4k\<rparr>))
     = badRequest invalid_type_message
   \<and> fst (handleUpload Map.empty 0 ''00''
          (sample_upload\<lparr>h_content_type := Some ''image/png'', h_content_length := None,
                          body_bytes := body_11mb\<rparr>))
     = badRequest ''File too large. Maximum size: 10MB''
   \<and> handleUpload Map.empty 0 ''00''
          (sample_upload\<lparr>h_content_type := Some ''image/png'', h_content_length := None,
                          body_bytes := body_10mb\<rparr>)
     = (success (PUpload ''/uploads/0-00.png'' ''0-00.png'') 201,
        [''0-00.png'' \<mapsto> (body_10mb, ''image/png'')])
   \<and> fst (handleRequest sample_externals sample_env 0 Map.empty sample_big_upload)
     = Respond (payloadTooLarge ''File too large. Maximum size: 10MB'')
   \<and> fst (handleRequest sample_externals sample_env 0 Map.empty sample_upload) = Call HandleUpload"
proof -
  let ?pdf = "sample_upload\<lparr>h_content_type := Some ''application/pdf'', body_bytes := body_4k\<rparr>"
  let ?big = "sample_upload\<lparr>h_content_type := Some ''image/png'', h_content_length := None,
                          body_bytes := body_11mb\<rparr>"
  let ?ten = "sample_upload\<lparr>h_content_type := Some ''image/png'', h_content_length := None,
                          body_bytes := body_10mb\<rparr>"
  have m: "req_method ?pdf = ''POST''" "req_method ?big = ''POST''" "req_method ?ten = ''POST''"
    "req_method sample_big_upload = ''POST''" "req_method sample_upload = ''POST''"
    by (simp_all add: sample_upload_def sample_big_upload_def)
  have l: "int (length body_11mb) > 10 * 1024 * 1024" "int (length body_10mb) = 10 * 1024 * 1024"
    by (simp_all add: body_11mb_def body_10mb_def)
  have fn: "generateUniqueFilename ''image/png'' 0 ''00'' = ''0-00.png''"
    by code_simp
  have su: "sample_upload = ?ten"
    by (simp add: sample_upload_def)
  have big: "sample_big_upload =
      sample_upload\<lparr>h_content_type := Some ''image/png'', h_content_length := Some ''11534336'',
                     body_bytes := body_11mb\<rparr>"
    by (simp add: sample_big_upload_def sample_upload_def)
  have fbig: "uploaded_file sample_big_upload = Some (''image/png'', body_11mb)"
    unfolding big by (rule sample_upload_file)
  have vbig: "carries_valid_token sample_externals sample_env 0 sample_big_upload"
    using sample_upload_token[where c = "Some ''11534336''" and bs = body_11mb] by (simp add: sample_big_upload_def)
  have vten: "carries_valid_token sample_externals sample_env 0 sample_upload"
    using sample_upload_token[where c = None and bs = body_10mb] by (simp add: sample_upload_def)
  have ften: "uploaded_file sample_upload = Some (''image/png'', body_10mb)"
    using sample_upload_file[where c = None and bs = body_10mb] su by simp
  have pth: "pathname sample_big_upload = ''/api/upload''" "pathname sample_upload = ''/api/upload''"
    "h_content_length sample_big_upload = Some ''11534336''" "h_content_length sample_upload = None"
    by (simp_all add: sample_upload_def sample_big_upload_def)
  note t1 = upload_validation_layers[OF m(1) sample_pdf_file, where b = Map.empty and now = 0
      and random = "''00''"]
  note t2 = upload_validation_layers[OF m(2) sample_upload_file, where b = Map.empty and now = 0
      and random = "''00''"]
  note t3 = upload_validation_layers[OF m(3) sample_upload_file, where b = Map.empty and now = 0
      and random = "''00''"]
  note t4 = upload_validation_layers[OF m(4) fbig, where b = Map.empty and now = 0
      and random = "''00''" and X = sample_externals and e = sample_env and store = Map.empty]
  note t5 = upload_validation_layers[OF m(5) ften, where b = Map.empty and now = 0
      and random = "''00''" and X = sample_externals and e = sample_env and store = Map.empty]
  have c1: "fst (handleUpload Map.empty 0 ''00'' ?pdf) = badRequest invalid_type_message"
    using t1 pdf_not_allowed by simp
  have c2: "fst (handleUpload Map.empty 0 ''00'' ?big) = badRequest ''File too large. Maximum size: 10MB''"
    using t2 png_allowed l(1) by simp
  have c3: "handleUpload Map.empty 0 ''00'' ?ten
     = (success (PUpload ''/uploads/0-00.png'' ''0-00.png'') 201,
        [''0-00.png'' \<mapsto> (body_10mb, ''image/png'')])"
    using t3 png_allowed l(2) fn by simp
  have c4: "fst (handleRequest sample_externals sample_env 0 Map.empty sample_big_upload)
     = Respond (payloadTooLarge ''File too large. Maximum size: 10MB'')"
    using t4 vbig pth parse_11mb by simp
  have c5: "fst (handleRequest sample_externals sample_env 0 Map.empty sample_upload) = Call HandleUpload"
    using t5 vten pth by simp
  from c1 c2 c3 c4 c5 show ?thesis by blast
qed

section \<open>Properties of the login\<close>

lemma signToken_claims:
  "signToken X (string_of_int (adm_id a)) (adm_username a) secret now
     = jose_sign X (issued_claims a now) secret"
  by (simp add: signToken_def issued_claims_def TOKEN_EXPIRATION_SECONDS_def Let_def)

lemma verify_issued:
  assumes "jose_jwtVerify X token secret t = Some (issued_claims a now)"
  shows "verifyToken X token secret t =
           Some \<lparr>sub = string_of_int (adm_id a), username = adm_username a,
                 iat = now div 1000, exp = now div 1000 + 86400\<rparr>"
  using assms by (simp add: verifyToken_def issued_claims_def)

lemma login_success_shape:
  assumes "handleLogin X e now db req = Some resp" "resp_status resp = 200"
  shows "\<exists>a body password.
           a \<in> set (admins db)
         \<and> json_body req = Some body
         \<and> js_prop body ''username'' = Some (Some (JStr (adm_username a)))
         \<and> js_prop body ''password'' = Some (Some (JStr password))
         \<and> find (\<lambda>x. adm_username x = adm_username a) (admins db) = Some a
         \<and> bcrypt_compare X password (adm_password_hash a)
         \<and> resp = success (PLogin (signToken X (string_of_int (adm_id a)) (adm_username a)
                                      (JWT_SECRET e) now)
                                   (now div 1000 + 86400)) 200"
proof -
  from assms obtain body where b: "json_body req = Some body"
    by (auto simp: handleLogin_def badRequest_status split: if_splits option.splits)
  from assms b obtain u p where up: "js_prop body ''username'' = Some u" "js_prop body ''password'' = Some p"
    by (auto simp: handleLogin_def badRequest_status split: if_splits option.splits)
  from assms b up obtain uname where un: "required_string u = Some uname"
    by (auto simp: handleLogin_def badRequest_status split: if_splits option.splits)
  from assms b up un obtain password where pw: "required_string p = Some password"
    by (auto simp: handleLogin_def badRequest_status split: if_splits option.splits)
  from un have u: "u = Some (JStr uname)"
    by (cases u rule: required_string.cases) (auto split: if_splits)
  from pw have p: "p = Some (JStr password)"
    by (cases p rule: required_string.cases) (auto split: if_splits)
  from assms b up un pw obtain a where a: "find (\<lambda>a. adm_username a = uname) (admins db) = Some a"
    by (auto simp: handleLogin_def badRequest_status unauthorized_status
        split: if_splits option.splits)
  then have am: "a \<in> set (admins db)" and an: "adm_username a = uname"
    by (auto simp: find_Some_iff)
  from assms b up un pw a have cmp: "bcrypt_compare X password (adm_password_hash a)"
    and r: "resp = success (PLogin (signToken X (string_of_int (adm_id a)) (adm_username a)
                                      (JWT_SECRET e) now)
                                   (now div 1000 + 86400)) 200"
    by (auto simp: handleLogin_def badRequest_status unauthorized_status Let_def
        getTokenExpirationSeconds_def TOKEN_EXPIRATION_SECONDS_def
        split: if_splits option.splits)
  from a an have f: "find (\<lambda>x. adm_username x = adm_username a) (admins db) = Some a"
    by simp
  from up u an have bu: "js_prop body ''username'' = Some (Some (JStr (adm_username a)))"
    by simp
  from up p have bp: "js_prop body ''password'' = Some (Some (JStr password))"
    by simp
  from am b bu bp f cmp r show ?thesis by blast
qed

text \<open>
  Conversely, a \<open>POST\<close> with the username of an admin row and a password of valid length
  that \<open>bcrypt\<close> accepts for the row's hash succeeds, with the token signed for that row.
\<close>

lemma login_valid_credentials:
  assumes "req_method req = ''POST''" "json_body req = Some body"
      and "js_prop body ''username'' = Some (Some (JStr uname))"
      and "js_prop body ''password'' = Some (Some (JStr password))"
      and "1 \<le> length uname" "length uname \<le> 50"
      and "6 \<le> length password" "length password \<le> 100"
      and "find (\<lambda>x. adm_username x = uname) (admins db) = Some a"
      and "bcrypt_compare X password (adm_password_hash a)"
  shows "handleLogin X e now db req =
           Some (success (PLogin (jose_sign X (issued_claims a now) (JWT_SECRET e))
                                 (now div 1000 + 86400)) 200)"
proof -
  from assms(9) have an: "adm_username a = uname" by (auto simp: find_Some_iff)
  from assms(5) have u: "uname \<noteq> []" by auto
  from assms(7) have p: "password \<noteq> []" by auto
  have vu: "validateStringLength uname Username = None"
    using assms(5,6) u by (simp add: validateStringLength_def)
  have vp: "validateStringLength password Password = None"
    using assms(7,8) by (simp add: validateStringLength_def)
  have tk: "signToken X (string_of_int (adm_id a)) uname (JWT_SECRET e) now
              = jose_sign X (issued_claims a now) (JWT_SECRET e)"
    using signToken_claims[of X a "JWT_SECRET e" now] an by simp
  show ?thesis
    using assms(1,2,3,4,9,10) u p an
    by (simp add: handleLogin_def vu vp tk Let_def getTokenExpirationSeconds_def
        TOKEN_EXPIRATION_SECONDS_def)
qed

text \<open>
  Claim C8. A login that succeeds (status 200) carried a JSON body whose \<open>username\<close> and
  \<open>password\<close> are strings; the admin is the row that the query by that username
  returns (the first row of \<open>admins\<close> with the username of the request), and \<open>bcrypt\<close>
  accepts the request's password for that row's hash. The token in the answer is what
  \<open>jose\<close> signs, under the configured secret, for the claims \<open>sub = String(id)\<close>,
  \<open>username\<close>, \<open>iat = floor(now / 1000)\<close> and \<open>exp = iat + 86400\<close> of that admin, and
  \<open>expiresAt\<close> is \<open>floor(now / 1000) + 86400\<close>. Whenever \<open>jose\<close> verifies that token under
  the same secret to the claims it signed, \<open>verifyToken\<close> returns a payload with
  \<open>exp - iat = 86400\<close>, that admin's id as subject and that admin's username, which is
  the username of the request.
\<close>

theorem login_token_lifetime:
  assumes "handleLogin X e now db req = Some resp" "resp_status resp = 200"
  shows "\<exists>a body uname password token expiresAt.
           json_body req = Some body
         \<and> js_prop body ''username'' = Some (Some (JStr uname))
         \<and> js_prop body ''password'' = Some (Some (JStr password))
         \<and> find (\<lambda>x. adm_username x = uname) (admins db) = Some a
         \<and> a \<in> set (admins db)
         \<and> adm_username a = uname
         \<and> bcrypt_compare X password (adm_password_hash a)
         \<and> resp = success (PLogin token expiresAt) 200
         \<and> expiresAt = now div 1000 + 86400
         \<and> token = jose_sign X (issued_claims a now) (JWT_SECRET e)
         \<and> claim_iat (issued_claims a now) = Some (JNum (now div 1000))
         \<and> claim_exp (issued_claims a now) = Some (JNum (now div 1000 + 86400))
         \<and> claim_sub (issued_claims a now) = Some (JStr (string_of_int (adm_id a)))
         \<and> claim_username (issued_claims a now) = Some (JStr (adm_username a))
         \<and> (\<forall>t. jose_jwtVerify X token (JWT_SECRET e) t = Some (issued_claims a now) \<longrightarrow>
               (\<exists>p. verifyToken X token (JWT_SECRET e) t = Some p
                    \<and> exp p - iat p = 86400
                    \<and> sub p = string_of_int (adm_id a)
                    \<and> username p = uname))"
proof -
  from login_success_shape[OF assms] obtain a body password where
    am: "a \<in> set (admins db)" and
    b: "json_body req = Some body" and
    bu: "js_prop body ''username'' = Some (Some (JStr (adm_username a)))" and
    bp: "js_prop body ''password'' = Some (Some (JStr password))" and
    f: "find (\<lambda>x. adm_username x = adm_username a) (admins db) = Some a" and
    cmp: "bcrypt_compare X password (adm_password_hash a)" and
    r: "resp = success (PLogin (signToken X (string_of_int (adm_id a)) (adm_username a)
                                      (JWT_SECRET e) now)
                                   (now div 1000 + 86400)) 200"
    by blast
  let ?token = "jose_sign X (issued_claims a now) (JWT_SECRET e)"
  have tk: "signToken X (string_of_int (adm_id a)) (adm_username a) (JWT_SECRET e) now = ?token"
    by (rule signToken_claims)
  have v: "\<forall>t. jose_jwtVerify X ?token (JWT_SECRET e) t = Some (issued_claims a now) \<longrightarrow>
               (\<exists>p. verifyToken X ?token (JWT_SECRET e) t = Some p
                    \<and> exp p - iat p = 86400
                    \<and> sub p = string_of_int (adm_id a)
                    \<and> username p = adm_username a)"
    using verify_issued[of X ?token "JWT_SECRET e" _ a now] by simp
  have c: "claim_iat (issued_claims a now) = Some (JNum (now div 1000))"
    "claim_exp (issued_claims a now) = Some (JNum (now div 1000 + 86400))"
    "claim_sub (issued_claims a now) = Some (JStr (string_of_int (adm_id a)))"
    "claim_username (issued_claims a now) = Some (JStr (adm_username a))"
    by (simp_all add: issued_claims_def)
  have r': "resp = success (PLogin ?token (now div 1000 + 86400)) 200"
    using r tk by simp
  show ?thesis
    apply (rule exI[of _ a])
    apply (rule exI[of _ body])
    apply (rule exI[of _ "adm_username a"])
    apply (rule exI[of _ password])
    apply (rule exI[of _ ?token])
    apply (rule exI[of _ "now div 1000 + 86400"])
    apply (intro conjI)
                 apply (rule b)
                apply (rule bu)
               apply (rule bp)
              apply (rule f)
             apply (rule am)
            apply (rule refl)
           apply (rule cmp)
          apply (rule r')
         apply (rule refl)
        apply (rule refl)
       apply (rule c(1))
      apply (rule c(2))
     apply (rule c(3))
    apply (rule c(4))
    apply (rule v)
    done
qed

lemma string_of_int_1: "string_of_int 1 = ''1''"
  by code_simp

theorem login_token_lifetime_witness:
  "handleLogin sample_externals sample_env 0 sample_db sample_credentials
     = Some (success (PLogin ''t0'' 86400) 200)
   \<and> resp_status (success (PLogin ''t0'' 86400) 200) = 200
   \<and> (\<exists>p. verifyToken sample_externals ''t0'' ''secret'' 1000 = Some p
          \<and> exp p - iat p = 86400 \<and> sub p = ''1'' \<and> username p = ''admin'')"
proof -
  have vu: "validateStringLength ''admin'' Username = None"
    by (simp add: validateStringLength_def)
  have vp: "validateStringLength ''admin123'' Password = None"
    by (simp add: validateStringLength_def)
  have h1: "handleLogin sample_externals sample_env 0 sample_db sample_credentials
     = Some (success (PLogin ''t0'' 86400) 200)"
    by (simp add: handleLogin_def sample_credentials_def sample_login_def sample_db_def vu vp
        sample_externals_def sample_env_def signToken_def getTokenExpirationSeconds_def
        TOKEN_EXPIRATION_SECONDS_def Let_def)
  have h2: "resp_status (success (PLogin ''t0'' 86400) 200) = 200"
    by (simp add: success_status)
  from login_token_lifetime[OF h1 h2] obtain a token expiresAt where
    am: "a \<in> set (admins sample_db)" and
    tk: "token = jose_sign sample_externals (issued_claims a 0) (JWT_SECRET sample_env)" and
    v: "\<forall>t. jose_jwtVerify sample_externals token (JWT_SECRET sample_env) t
              = Some (issued_claims a 0) \<longrightarrow>
          (\<exists>p. verifyToken sample_externals token (JWT_SECRET sample_env) t = Some p
               \<and> exp p - iat p = 86400
               \<and> sub p = string_of_int (adm_id a)
               \<and> username p = adm_username a)"
    by blast
  from am have a: "a = \<lparr>adm_id = 1, adm_username = ''admin'', adm_password_hash = ''bcrypt:admin123''\<rparr>"
    by (simp add: sample_db_def)
  have t0: "token = ''t0''"
    unfolding tk by (simp add: sample_externals_def)
  have sec: "JWT_SECRET sample_env = ''secret''"
    by (simp add: sample_env_def)
  have ic: "issued_claims a 0 =
      \<lparr>claim_sub = Some (JStr ''1''), claim_username = Some (JStr ''admin''),
       claim_iat = Some (JNum 0), claim_exp = Some (JNum 86400)\<rparr>"
    unfolding a by (simp add: issued_claims_def string_of_int_1)
  have jv: "jose_jwtVerify sample_externals ''t0'' ''secret'' 1000 = Some (issued_claims a 0)"
    unfolding ic by (simp add: sample_externals_def)
  from v[rule_format, of 1000] jv t0 sec a string_of_int_1
  have "\<exists>p. verifyToken sample_externals ''t0'' ''secret'' 1000 = Some p
          \<and> exp p - iat p = 86400 \<and> sub p = ''1'' \<and> username p = ''admin''"
    by simp
  with h1 h2 show ?thesis by blast
qed

section \<open>Properties of the article lists\<close>

lemma truncate_status [simp]: "status (article_cols.truncate a) = status a"
  by (simp add: article_cols.defs)

lemma truncate_art_id [simp]: "art_id (article_cols.truncate a) = art_id a"
  by (simp add: article_cols.defs)

lemma view_status [simp]: "status (with_category_and_tags db a) = status a"
  by (simp add: with_category_and_tags_def article_cols.defs article_view.defs)

lemma set_order_by [simp]: "set (order_by_created_desc rows) = set rows"
  by (simp add: order_by_created_desc_def)

lemma length_order_by [simp]: "length (order_by_created_desc rows) = length rows"
  by (simp add: order_by_created_desc_def)

lemma public_rows_published:
  assumes "r \<in> set (public_rows db tagId categoryId)"
  shows "status r = Published"
  using assms
  by (auto simp: public_rows_def public_where_def split: option.splits)

lemma sql_limit_offset_subset:
  assumes "sql_limit_offset l off rows = Some res"
  shows "set res \<subseteq> set rows"
  using assms
  by (cases l; cases off) (auto split: if_splits dest: in_set_takeD in_set_dropD)

text \<open>
  Claim C2. Whatever the \<open>page\<close>, \<open>pageSize\<close>, \<open>categoryId\<close> and \<open>tagId\<close> parameters
  are, \<open>handleGetArticles\<close> either fails with the 500 envelope or answers 200 with a
  page in which every article has status \<open>published\<close>: a draft is never in \<open>data\<close>.
\<close>

theorem public_list_only_published:
  "(handleGetArticles db req = internalError ''Failed to fetch articles''
    \<or> (\<exists>p. handleGetArticles db req = success (PArticleList p) 200
           \<and> (\<forall>a\<in>set (data p). status a = Published)))
   \<and> (\<forall>p st. handleGetArticles db req = success (PArticleList p) st \<longrightarrow>
         (\<forall>a\<in>set (data p). status a = Published))"
proof -
  let ?ps = "request_pageSize req"
  let ?off = "js_mul (js_sub (request_page req) (Num 1)) ?ps"
  let ?rows = "public_rows db (truthy_param (param_int req ''tagId''))
                 (truthy_param (param_int req ''categoryId''))"
  show ?thesis
  proof (cases "sql_limit_offset ?ps ?off ?rows")
    case None
    then have "handleGetArticles db req = internalError ''Failed to fetch articles''"
      by (simp add: handleGetArticles_def Let_def)
    then show ?thesis
      by (simp add: internalError_def error_def success_def)
  next
    case (Some res)
    then have h: "handleGetArticles db req = success (PArticleList
               \<lparr>data = map (with_category_and_tags db) res,
                total = public_count db (truthy_param (param_int req ''tagId''))
                          (truthy_param (param_int req ''categoryId'')),
                page = request_page req, pageSize = ?ps\<rparr>) 200"
      by (simp add: handleGetArticles_def Let_def)
    from sql_limit_offset_subset[OF Some] public_rows_published
    have "\<forall>r\<in>set res. status r = Published" by blast
    then have "\<forall>a\<in>set (map (with_category_and_tags db) res). status a = Published"
      by simp
    with h show ?thesis
      by (auto simp: success_def)
  qed
qed

lemma default_page_size_text: "string_of_int DEFAULT_PAGE_SIZE = ''10''"
  by code_simp

lemma parseInt_1: "parseInt ''1'' = Num 1"
  by (simp add: parseInt_def trimStart_def is_js_space_def parse_digits_def is_digit_of_def
      digit_value_def digits_value_def Let_def)

lemma parseInt_10: "parseInt ''10'' = Num 10"
  by (simp add: parseInt_def trimStart_def is_js_space_def parse_digits_def is_digit_of_def
      digit_value_def digits_value_def Let_def)

lemma joined_map:
  "[f a. a \<leftarrow> xs, t \<leftarrow> g a, P a t] = map f [a. a \<leftarrow> xs, t \<leftarrow> g a, P a t]"
proof -
  have inner: "\<And>a ts. concat (map (\<lambda>t. if P a t then [f a] else []) ts)
                  = map f (concat (map (\<lambda>t. if P a t then [a] else []) ts))"
    subgoal for a ts by (induction ts) auto
    done
  show ?thesis
    by (induction xs) (auto simp: inner)
qed

lemma joined_subset: "set [a. a \<leftarrow> xs, t \<leftarrow> g a, P a t] \<subseteq> set xs"
  by auto

lemma length_remdups_inj:
  assumes "inj_on f (set xs)"
  shows "length (remdups (map f xs)) = card (set xs)"
proof -
  have "length (remdups (map f xs)) = card (set (map f xs))"
    by (simp add: length_remdups_card_conv)
  also have "\<dots> = card (f ` set xs)" by simp
  also have "\<dots> = card (set xs)" using assms by (rule card_image)
  finally show ?thesis .
qed

lemma art_id_inj:
  assumes "distinct (map art_id (xs :: article list))"
  shows "inj_on art_id (set xs)" and "inj_on article_cols.truncate (set xs)"
proof -
  from assms show i: "inj_on art_id (set xs)"
    by (simp add: distinct_map)
  show "inj_on article_cols.truncate (set xs)"
  proof (rule inj_onI)
    fix a b assume "a \<in> set xs" "b \<in> set xs" "article_cols.truncate a = article_cols.truncate b"
    then have "art_id a = art_id b"
      by (metis truncate_art_id)
    with i \<open>a \<in> set xs\<close> \<open>b \<in> set xs\<close> show "a = b"
      by (auto dest: inj_onD)
  qed
qed

lemma distinct_map_truncate:
  assumes "distinct (map art_id (xs :: article list))"
  shows "distinct (map article_cols.truncate xs)"
  using assms art_id_inj(2)[OF assms] by (simp add: distinct_map)

lemma public_count_rows:
  assumes "primary_keys db"
  shows "public_count db tagId categoryId = int (length (public_rows db tagId categoryId))"
proof (cases tagId)
  case None
  from assms have "distinct (map art_id (articles db))"
    by (simp add: primary_keys_def)
  then have "distinct (map art_id (filter (\<lambda>a. public_where None categoryId a None) (articles db)))"
    by (rule distinct_map_filter)
  then have "distinct (map article_cols.truncate
                (filter (\<lambda>a. public_where None categoryId a None) (articles db)))"
    by (rule distinct_map_truncate)
  with None show ?thesis
    by (simp add: public_count_def public_rows_def distinct_remdups_id)
next
  case (Some x)
  let ?J = "[a. a \<leftarrow> articles db, t \<leftarrow> left_join_tags db a, public_where (Some x) categoryId a t]"
  from assms have d: "distinct (map art_id (articles db))"
    by (simp add: primary_keys_def)
  have sub: "set ?J \<subseteq> set (articles db)"
    by (rule joined_subset)
  from art_id_inj[OF d] sub have i1: "inj_on art_id (set ?J)" and i2: "inj_on article_cols.truncate (set ?J)"
    by (auto intro: inj_on_subset)
  have c: "[art_id a. a \<leftarrow> articles db, t \<leftarrow> left_join_tags db a, public_where (Some x) categoryId a t]
           = map art_id ?J"
    by (rule joined_map)
  have r: "[article_cols.truncate a. a \<leftarrow> articles db, t \<leftarrow> left_join_tags db a,
             public_where (Some x) categoryId a t] = map article_cols.truncate ?J"
    by (rule joined_map)
  have "public_count db tagId categoryId = int (length (remdups (map art_id ?J)))"
    unfolding Some public_count_def c by simp
  also have "\<dots> = int (card (set ?J))"
    using length_remdups_inj[OF i1] by simp
  also have "\<dots> = int (length (remdups (map article_cols.truncate ?J)))"
    using length_remdups_inj[OF i2] by simp
  also have "\<dots> = int (length (public_rows db tagId categoryId))"
    unfolding Some public_rows_def r by simp
  finally show ?thesis .
qed

lemma admin_count_rows:
  "admin_count db categoryId st = int (length (admin_rows db categoryId st))"
  by (simp add: admin_count_def admin_rows_def)

lemma paging_numeric:
  assumes "parseInt (param_or req ''page'' ''1'') = Num p0"
      and "parseInt (param_or req ''pageSize'' ''10'') = Num s0"
  shows "request_page req = Num (if p0 < 1 then 1 else p0)"
    and "request_pageSize req = Num (if s0 < 1 \<or> s0 > 100 then 10 else s0)"
  unfolding request_page_def request_pageSize_def default_page_size_text assms
  by (simp_all add: effective_page_def effective_pageSize_def DEFAULT_PAGE_SIZE_def)


lemma parseInt_500: "parseInt ''500'' = Num 500"
  by (simp add: parseInt_def trimStart_def is_js_space_def parse_digits_def is_digit_of_def
      digit_value_def digits_value_def Let_def)

lemma parseInt_abc: "parseInt ''abc'' = NaN"
  by (simp add: parseInt_def trimStart_def is_js_space_def parse_digits_def is_digit_of_def
      digit_value_def digits_value_def Let_def)

lemma parseInt_2: "parseInt ''2'' = Num 2"
  by (simp add: parseInt_def trimStart_def is_js_space_def parse_digits_def is_digit_of_def
      digit_value_def digits_value_def Let_def)

text \<open>
  Past the bound of the statement the model fails with the code: at \<open>page=10^18\<close> the
  offset is the double \<open>10^19\<close>, beyond the 64-bit range, and both lists answer 500.
\<close>

lemma parseInt_big: "parseInt ''1000000000000000000'' = Num 1000000000000000000"
  by (simp add: parseInt_def trimStart_def is_js_space_def parse_digits_def is_digit_of_def
      digit_value_def digits_value_def Let_def to_double_rounds)

lemma article_list_offset_out_of_range:
  "handleGetArticles sample_db
     (sample_public\<lparr>searchParams := [(''page'', ''1000000000000000000'')]\<rparr>)
     = internalError ''Failed to fetch articles''"
  "handleGetAdminArticles sample_db
     (sample_public\<lparr>searchParams := [(''page'', ''1000000000000000000'')]\<rparr>)
     = internalError ''Failed to fetch articles''"
proof -
  let ?req = "sample_public\<lparr>searchParams := [(''page'', ''1000000000000000000'')]\<rparr>"
  have p: "request_page ?req = Num 1000000000000000000"
    by (simp add: request_page_def param_or_def parseInt_big effective_page_def)
  have s: "request_pageSize ?req = Num 10"
    unfolding request_pageSize_def default_page_size_text
    by (simp add: param_or_def parseInt_10 effective_pageSize_def DEFAULT_PAGE_SIZE_def)
  have off: "js_mul (js_sub (Num 1000000000000000000) (Num 1)) (Num 10)
               = Num 10000000000000000000"
    by (simp add: to_double_rounds)
  have l: "\<And>xs :: 'a list. sql_limit_offset (Num 10) (Num 10000000000000000000) xs = None"
    by (simp add: is_int64_def)
  show "handleGetArticles sample_db ?req = internalError ''Failed to fetch articles''"
    unfolding handleGetArticles_def Let_def p s off l by simp
  show "handleGetAdminArticles sample_db ?req = internalError ''Failed to fetch articles''"
    unfolding handleGetAdminArticles_def Let_def p s off l by simp
qed

lemma sample_public_rows:
  "public_rows sample_db None None
     = [article_cols.truncate sample_article3, article_cols.truncate sample_article1]"
  by (simp add: public_rows_def public_where_def sample_db_def sample_article1_def
      sample_article2_def sample_article3_def article_cols.defs order_by_created_desc_def)

lemma sample_admin_rows:
  "admin_rows sample_db None None
     = [article_cols.truncate sample_article3, article_cols.truncate sample_article2,
        article_cols.truncate sample_article1]"
  by (simp add: admin_rows_def admin_where_def sample_db_def sample_article1_def
      sample_article2_def sample_article3_def article_cols.defs order_by_created_desc_def)

lemma sample_primary_keys: "primary_keys sample_db"
  by (simp add: primary_keys_def sample_db_def sample_article1_def sample_article2_def
      sample_article3_def sample_category1_def sample_category2_def)



theorem public_list_only_published_witness:
  "\<exists>p. handleGetArticles sample_db sample_public = success (PArticleList p) 200
       \<and> map art_id (data p) = [3, 1]
       \<and> list_all (\<lambda>a. status a = Published) (data p)"
proof -
  have pg: "parseInt (param_or sample_public ''page'' ''1'') = Num 1"
    by (simp add: sample_public_def sample_request_def param_or_def parseInt_1)
  have sz: "parseInt (param_or sample_public ''pageSize'' ''10'') = Num 10"
    by (simp add: sample_public_def sample_request_def param_or_def parseInt_10)
  have q: "truthy_param (param_int sample_public ''tagId'') = None"
    "truthy_param (param_int sample_public ''categoryId'') = None"
    by (simp_all add: sample_public_def sample_request_def truthy_param_def param_int_def)
  have ids: "art_id sample_article1 = 1" "art_id sample_article3 = 3"
    by (simp_all add: sample_article1_def sample_article3_def)
  have h: "handleGetArticles sample_db sample_public =
      success (PArticleList
         \<lparr>data = map (with_category_and_tags sample_db) (public_rows sample_db None None),
          total = public_count sample_db None None, page = Num 1, pageSize = Num 10\<rparr>) 200"
    using paging_numeric[OF pg sz]
    unfolding handleGetArticles_def Let_def q
    by (simp add: sample_public_rows is_int64_def)
  let ?P = "\<lparr>data = map (with_category_and_tags sample_db) (public_rows sample_db None None),
          total = public_count sample_db None None, page = Num 1, pageSize = Num 10\<rparr>"
  from public_list_only_published[of sample_db sample_public] h
  have "\<forall>a\<in>set (data ?P). status a = Published"
    by (simp add: success_def)
  then have la: "list_all (\<lambda>a. status a = Published) (data ?P)"
    by (simp add: list_all_iff)
  have m: "map art_id (data ?P) = [3, 1]"
    unfolding sample_public_rows
    by (simp add: with_category_and_tags_def article_cols.defs article_view.defs ids)
  from h m la
  have "handleGetArticles sample_db sample_public = success (PArticleList ?P) 200
       \<and> map art_id (data ?P) = [3, 1]
       \<and> list_all (\<lambda>a. status a = Published) (data ?P)"
    by (intro conjI)
  then show ?thesis by (rule exI)
qed

end
